theory Spec2Isabelle
  imports Complex_Main
begin

section \<open>Report aggregation of the pipeline page\<close>

text \<open>
  The pipeline page (component \<open>HomePage\<close>) derives its report from the rows of the
  keyword-extraction response inside one memoised computation, \<open>reportData\<close>.
  A row is modelled at the types the response gives it: \<open>Cluster\<close> a number,
  \<open>LLM_Keywords\<close> a string, \<open>Count\<close> a number that may be absent. The numbers
  are the integer-valued doubles, written as integers; their sum is the sum of doubles
  (\<open>js_add\<close> below). A quotient stands for the double the division returns and is
  written as the exact rational. The strings whose length the code measures (keywords
  and chart labels) are lists of UTF-16 code units, as in the language; every other
  string is a byte string, with text outside ASCII in UTF-8.
\<close>

type_synonym utf16 = "nat list"

definition ascii :: "string \<Rightarrow> utf16" where
  "ascii s = map of_char s"

record ClusterRow =
  Cluster :: int
  LLM_Keywords :: utf16
  Count :: "int option"

record analysis_item =
  clusterId :: int
  keyword :: utf16
  count :: int

record report_entry = analysis_item +
  percentage :: rat

record chart_bar =
  name :: utf16
  fullName :: utf16
  bar_count :: int
  fill :: string

record report =
  totalRecords :: int
  topicCount :: nat
  coverage :: rat
  noiseCount :: int
  top10 :: "chart_bar list"
  fullDisplayList :: "report_entry list"

text \<open>
  The label that replaces the keyword of the noise row in the full list, a string
  literal of the source outside ASCII, given by its UTF-16 code units.
\<close>

definition text_noise_label :: utf16 where
  "text_noise_label =
    [0x26A0, 0xFE0F, 0x0020, 0x79BB, 0x6563, 0x002F, 0x65E0, 0x6CD5, 0x5F52,
     0x7C7B, 0x7684, 0x6570, 0x636E, 0x0020, 0x0028, 0x566A, 0x97F3, 0x0029]"

text \<open>
  Addition of two integer-valued doubles: the exact sum rounded to the nearest double,
  that is, to 53 significant bits, a tie going to the even significand. \<open>drop_bits\<close>
  counts the low bits that do not fit. A sum of at most \<open>2 ^ 53\<close> in absolute value
  is exact. (The overflow to infinity, beyond \<open>2 ^ 1024\<close>, is not modelled.)
\<close>

fun drop_bits :: "nat \<Rightarrow> nat" where
  "drop_bits n = (if n < 2 ^ 53 then 0 else Suc (drop_bits (n div 2)))"

declare drop_bits.simps [simp del]

definition round_double :: "int \<Rightarrow> int" where
  "round_double x =
     (let m = nat \<bar>x\<bar>;
          u = 2 ^ drop_bits m;
          q = m div u;
          r = m mod u;
          q' = (if 2 * r > u \<or> (2 * r = u \<and> odd q) then q + 1 else q)
      in sgn x * int (q' * u))"

definition js_add :: "int \<Rightarrow> int \<Rightarrow> int" where
  "js_add a b = round_double (a + b)"

text \<open>
  \<open>count: item.Count ? Number(item.Count) : 1\<close>. The test is JavaScript truthiness:
  an absent \<open>Count\<close> and the number \<open>0\<close> are both falsy; \<open>Number\<close> is the
  identity on a number.
\<close>

definition row_count :: "ClusterRow \<Rightarrow> int" where
  "row_count item =
     (case Count item of
        None \<Rightarrow> 1
      | Some c \<Rightarrow> if c \<noteq> 0 then c else 1)"

definition analysisList :: "ClusterRow list \<Rightarrow> analysis_item list" where
  "analysisList rawData =
     map (\<lambda>item. \<lparr>clusterId = Cluster item, keyword = LLM_Keywords item,
                   count = row_count item\<rparr>) rawData"

text \<open>\<open>reduce((sum, item) => sum + item.count, 0)\<close>, used for both totals.\<close>

definition sum_counts :: "'a analysis_item_scheme list \<Rightarrow> int" where
  "sum_counts xs = foldl (\<lambda>sum item. js_add sum (count item)) 0 xs"

definition processedList :: "ClusterRow list \<Rightarrow> report_entry list" where
  "processedList rawData =
     (let items = analysisList rawData;
          total = sum_counts items
      in map (\<lambda>item. \<lparr>clusterId = clusterId item, keyword = keyword item,
                        count = count item,
                        percentage = (if total > 0 then of_int (count item) / of_int total else 0)\<rparr>)
           items)"

text \<open>
  \<open>validClusters\<close> after the in-place sort by count, descending (the comparator
  is the difference of two counts, whose sign rounding does not change). The sort of
  the language is stable, as is \<open>sort_key\<close>.
\<close>

definition validClusters :: "ClusterRow list \<Rightarrow> report_entry list" where
  "validClusters rawData =
     sort_key (\<lambda>i. - count i) (filter (\<lambda>i. clusterId i \<noteq> - 1) (processedList rawData))"

definition noiseCluster :: "ClusterRow list \<Rightarrow> report_entry option" where
  "noiseCluster rawData = find (\<lambda>i. clusterId i = - 1) (processedList rawData)"

definition validCount :: "ClusterRow list \<Rightarrow> int" where
  "validCount rawData = sum_counts (validClusters rawData)"

definition bar_of :: "report_entry \<Rightarrow> chart_bar" where
  "bar_of item =
     \<lparr>name = (if length (keyword item) > 8 then take 8 (keyword item) @ ascii ''...''
              else keyword item),
      fullName = keyword item,
      bar_count = count item,
      fill = ''hsl(var(--primary))''\<rparr>"

definition aggregate :: "ClusterRow list \<Rightarrow> report" where
  "aggregate rawData =
     (let total = sum_counts (analysisList rawData);
          valid = validClusters rawData;
          noise = noiseCluster rawData
      in \<lparr>totalRecords = total,
          topicCount = length valid,
          coverage = (if total > 0 then of_int (validCount rawData) / of_int total else 0),
          noiseCount = (case noise of None \<Rightarrow> 0 | Some n \<Rightarrow> count n),
          top10 = map bar_of (take 10 valid),
          fullDisplayList =
            (case noise of
               None \<Rightarrow> valid
             | Some n \<Rightarrow> valid @ [n\<lparr>keyword := text_noise_label\<rparr>])\<rparr>)"

section \<open>The client of the remote service\<close>

text \<open>
  Every operation of the client sends one request and reads the reply. The model starts
  where the reply arrives: \<open>fetch\<close> either rejects (a network failure, an
  \<open>Error\<close> with the message given) or yields a response with a status and a body.
  The body of a JSON operation either does not parse (the parser then rejects with an
  \<open>Error\<close> carrying the message given) or parses to a JSON value. The client reads a
  parsed body in two ways: as the untyped value whose \<open>detail\<close> it probes on the
  error path, and as the typed payload it returns on success; both views are carried.
\<close>

datatype thrown = ErrorObj string | OtherValue

text \<open>
  A JSON value. The numbers are of a type the model leaves open; the members of an
  object are listed in the order of the text, a repeated key taking its last value.
\<close>

datatype 'n json =
    JNull
  | JBool bool
  | JNum 'n
  | JStr string
  | JArr "'n json list"
  | JObj "(string \<times> 'n json) list"

text \<open>
  What the error path needs of the JavaScript engine: the string conversion of a
  number, which numbers are zero (the falsy ones), and the message of the
  \<open>TypeError\<close> thrown when a property of \<open>null\<close> is read.
\<close>

record 'n engine =
  number_text :: "'n \<Rightarrow> string"
  number_is_zero :: "'n \<Rightarrow> bool"
  null_property_text :: string

datatype ('n, 'a) body = NotJson string | Json "'n json" 'a

record response_head =
  status :: nat

record ('n, 'a) http_response = response_head +
  body :: "('n, 'a) body"

record download_response = response_head +
  blob :: string

datatype 'r fetched = Rejected string | Responded 'r

text \<open>\<open>res.ok\<close>: the status is in the range 200 to 299.\<close>

definition ok :: "'m response_head_scheme \<Rightarrow> bool" where
  "ok res = (200 \<le> status res \<and> status res \<le> 299)"

text \<open>The decimal rendering of a status inside a template literal.\<close>

fun string_of_nat :: "nat \<Rightarrow> string" where
  "string_of_nat n =
     (if n < 10 then [char_of (48 + n)]
      else string_of_nat (n div 10) @ [char_of (48 + n mod 10)])"

declare string_of_nat.simps [simp del]

text \<open>Truthiness of a JSON value: null, false, zero and the empty string are falsy.\<close>

definition truthy_json :: "'n engine \<Rightarrow> 'n json \<Rightarrow> bool" where
  "truthy_json E v =
     (case v of
        JNull \<Rightarrow> False
      | JBool b \<Rightarrow> b
      | JNum n \<Rightarrow> \<not> number_is_zero E n
      | JStr s \<Rightarrow> s \<noteq> []
      | JArr _ \<Rightarrow> True
      | JObj _ \<Rightarrow> True)"

text \<open>
  The string conversion that \<open>new Error(value)\<close> applies to its argument: a string
  is itself, an array is its elements joined by commas (a null element giving the
  empty string), any other object is \<open>[object Object]\<close>.
\<close>

fun join_commas :: "string list \<Rightarrow> string" where
  "join_commas [] = []"
| "join_commas [x] = x"
| "join_commas (x # y # ys) = x @ '','' @ join_commas (y # ys)"

fun to_text :: "'n engine \<Rightarrow> 'n json \<Rightarrow> string" where
  "to_text E JNull = ''null''"
| "to_text E (JBool b) = (if b then ''true'' else ''false'')"
| "to_text E (JNum n) = number_text E n"
| "to_text E (JStr s) = s"
| "to_text E (JArr xs) = join_commas (map (\<lambda>x. if x = JNull then [] else to_text E x) xs)"
| "to_text E (JObj kvs) = ''[object Object]''"

text \<open>
  \<open>err.detail\<close>: reading the property of \<open>null\<close> throws; an object has the
  property if it has the member; every other value gives \<open>undefined\<close>.
\<close>

datatype 'n property = Throws | Undefined | Value "'n json"

definition get_detail :: "'n json \<Rightarrow> 'n property" where
  "get_detail err =
     (case err of
        JNull \<Rightarrow> Throws
      | JObj kvs \<Rightarrow> (case map_of (rev kvs) ''detail'' of None \<Rightarrow> Undefined | Some v \<Rightarrow> Value v)
      | _ \<Rightarrow> Undefined)"

text \<open>
  \<open>const err = await res.json().catch(() => ({ detail: "Unknown error" }))\<close>
\<close>

definition error_body :: "('n, 'a) body \<Rightarrow> 'n json" where
  "error_body b =
     (case b of
        NotJson _ \<Rightarrow> JObj [(''detail'', JStr ''Unknown error'')]
      | Json err _ \<Rightarrow> err)"

text \<open>\<open>throw new Error(err.detail || `HTTP ${res.status}`)\<close>\<close>

definition http_error :: "'n engine \<Rightarrow> ('n, 'a) http_response \<Rightarrow> thrown" where
  "http_error E res =
     (case get_detail (error_body (body res)) of
        Throws \<Rightarrow> ErrorObj (null_property_text E)
      | Undefined \<Rightarrow> ErrorObj (''HTTP '' @ string_of_nat (status res))
      | Value v \<Rightarrow>
          if truthy_json E v then ErrorObj (to_text E v)
          else ErrorObj (''HTTP '' @ string_of_nat (status res)))"

text \<open>\<open>return res.json()\<close>\<close>

definition read_json :: "('n, 'a) http_response \<Rightarrow> thrown + 'a" where
  "read_json res = (case body res of NotJson m \<Rightarrow> Inl (ErrorObj m) | Json _ v \<Rightarrow> Inr v)"

text \<open>
  The code that \<open>preprocessFile\<close>, \<open>clusterData\<close>, \<open>evaluateCluster\<close>,
  \<open>extractKeywords\<close> and \<open>loadState\<close> share after their request is sent.
\<close>

definition json_request :: "'n engine \<Rightarrow> ('n, 'a) http_response fetched \<Rightarrow> thrown + 'a" where
  "json_request E f =
     (case f of
        Rejected m \<Rightarrow> Inl (ErrorObj m)
      | Responded res \<Rightarrow> if \<not> ok res then Inl (http_error E res) else read_json res)"

definition downloadFile :: "download_response fetched \<Rightarrow> thrown + string" where
  "downloadFile f =
     (case f of
        Rejected m \<Rightarrow> Inl (ErrorObj m)
      | Responded res \<Rightarrow>
          if \<not> ok res
          then Inl (ErrorObj (''Download failed: HTTP '' @ string_of_nat (status res)))
          else Inr (blob res))"

record PreprocessResponse =
  pre_message :: string
  total_rows :: int
  valid_rows :: int
  removed_rows :: int

record ClusterResponse =
  cl_message :: string
  total_texts :: int
  n_clusters :: int
  n_noise :: int
  cl_output_file :: "string option"

record EvaluateResponse =
  ev_message :: string
  metrics :: "(string \<times> (string + int)) list"

record KeywordsResponse =
  kw_message :: string
  result :: "ClusterRow list option"
  kw_output_file :: "string option"

record LoadStateResponse =
  ls_message :: string
  ls_total_rows :: int
  ls_n_clusters :: int
  ls_n_noise :: int

definition preprocessFile ::
    "'n engine \<Rightarrow> ('n, PreprocessResponse) http_response fetched \<Rightarrow> thrown + PreprocessResponse" where
  "preprocessFile = json_request"

definition clusterData ::
    "'n engine \<Rightarrow> ('n, ClusterResponse) http_response fetched \<Rightarrow> thrown + ClusterResponse" where
  "clusterData = json_request"

definition evaluateCluster ::
    "'n engine \<Rightarrow> ('n, EvaluateResponse) http_response fetched \<Rightarrow> thrown + EvaluateResponse" where
  "evaluateCluster = json_request"

definition extractKeywords ::
    "'n engine \<Rightarrow> ('n, KeywordsResponse) http_response fetched \<Rightarrow> thrown + KeywordsResponse" where
  "extractKeywords = json_request"

definition loadState ::
    "'n engine \<Rightarrow> ('n, LoadStateResponse) http_response fetched \<Rightarrow> thrown + LoadStateResponse" where
  "loadState = json_request"

text \<open>The report is computed only once the keywords result and its rows are there.\<close>

definition reportData :: "KeywordsResponse option \<Rightarrow> report option" where
  "reportData keywordsResult =
     (case keywordsResult of
        None \<Rightarrow> None
      | Some kr \<Rightarrow> (case result kr of None \<Rightarrow> None | Some rawData \<Rightarrow> Some (aggregate rawData)))"

section \<open>The state of the pipeline page\<close>

record jsfile =
  file_name :: string
  file_bytes :: string

record CleanConfig =
  extractor :: string
  useNer :: bool
  column :: string

record ClusterConfig =
  nNeighbors :: int
  nComponents :: int
  minCluster :: int
  topN :: int
  textColumn :: string
  originalColumn :: string

record LlmConfig =
  apiKey :: string
  baseUrl :: string

datatype StepStatus = Waiting | Ready | Running | Done

record HomePage =
  "file" :: "jsfile option"
  preprocessResult :: "PreprocessResponse option"
  clusterResult :: "ClusterResponse option"
  keywordsResult :: "KeywordsResponse option"
  realClusteredFilename :: "string option"
  realKeywordsFilename :: "string option"
  step1Loading :: bool
  step1Progress :: nat
  step1ProgressText :: string
  step2Loading :: bool
  step2Progress :: nat
  step2ProgressText :: string
  step3Loading :: bool
  step3Progress :: nat
  step3ProgressText :: string
  error :: "string option"
  cleanDialogOpen :: bool
  clusterDialogOpen :: bool
  llmDialogOpen :: bool
  cleanCfg :: CleanConfig
  clusterCfg :: ClusterConfig
  llmCfg :: LlmConfig
  tempClean :: CleanConfig
  tempCluster :: ClusterConfig
  tempLlm :: LlmConfig

text \<open>
  The string literals of the page outside ASCII, each given by its UTF-8 bytes: the
  progress texts of the three stages, the messages used when a thrown value is not an
  \<open>Error\<close>, the message for a missing cluster file, and two default column names.
\<close>

definition text_uploading :: string where
  "text_uploading =
    [CHR 0xE6, CHR 0xAD, CHR 0xA3, CHR 0xE5, CHR 0x9C, CHR 0xA8, CHR 0xE4, CHR 0xB8,
     CHR 0x8A, CHR 0xE4, CHR 0xBC, CHR 0xA0, CHR 0xE6, CHR 0x96, CHR 0x87, CHR 0xE4,
     CHR 0xBB, CHR 0xB6, CHR 0x2E, CHR 0x2E, CHR 0x2E]"

definition text_extracting :: string where
  "text_extracting =
    [CHR 0xE6, CHR 0xAD, CHR 0xA3, CHR 0xE5, CHR 0x9C, CHR 0xA8, CHR 0xE4, CHR 0xBD,
     CHR 0xBF, CHR 0xE7, CHR 0x94, CHR 0xA8, CHR 0xE6, CHR 0x8F, CHR 0x90, CHR 0xE5,
     CHR 0x8F, CHR 0x96, CHR 0xE5, CHR 0x99, CHR 0xA8, CHR 0xE5, CHR 0xA4, CHR 0x84,
     CHR 0xE7, CHR 0x90, CHR 0x86, CHR 0xE6, CHR 0x95, CHR 0xB0, CHR 0xE6, CHR 0x8D,
     CHR 0xAE, CHR 0x2E, CHR 0x2E, CHR 0x2E]"

definition text_processed :: string where
  "text_processed =
    [CHR 0xE5, CHR 0xA4, CHR 0x84, CHR 0xE7, CHR 0x90, CHR 0x86, CHR 0xE5, CHR 0xAE,
     CHR 0x8C, CHR 0xE6, CHR 0x88, CHR 0x90]"

definition text_preprocess_failed :: string where
  "text_preprocess_failed =
    [CHR 0xE6, CHR 0x95, CHR 0xB0, CHR 0xE6, CHR 0x8D, CHR 0xAE, CHR 0xE5, CHR 0xA4,
     CHR 0x84, CHR 0xE7, CHR 0x90, CHR 0x86, CHR 0xE5, CHR 0xA4, CHR 0xB1, CHR 0xE8,
     CHR 0xB4, CHR 0xA5]"

definition text_downloading_processed :: string where
  "text_downloading_processed =
    [CHR 0xE6, CHR 0xAD, CHR 0xA3, CHR 0xE5, CHR 0x9C, CHR 0xA8, CHR 0xE4, CHR 0xB8,
     CHR 0x8B, CHR 0xE8, CHR 0xBD, CHR 0xBD, CHR 0xE9, CHR 0xA2, CHR 0x84, CHR 0xE5,
     CHR 0xA4, CHR 0x84, CHR 0xE7, CHR 0x90, CHR 0x86, CHR 0xE6, CHR 0x96, CHR 0x87,
     CHR 0xE4, CHR 0xBB, CHR 0xB6, CHR 0x2E, CHR 0x2E, CHR 0x2E]"

definition text_clustering :: string where
  "text_clustering =
    [CHR 0x53, CHR 0x42, CHR 0x45, CHR 0x52, CHR 0x54, CHR 0x20, CHR 0xE7, CHR 0xBC,
     CHR 0x96, CHR 0xE7, CHR 0xA0, CHR 0x81, CHR 0x20, CHR 0x2B, CHR 0x20, CHR 0x48,
     CHR 0x44, CHR 0x42, CHR 0x53, CHR 0x43, CHR 0x41, CHR 0x4E, CHR 0x20, CHR 0xE8,
     CHR 0x81, CHR 0x9A, CHR 0xE7, CHR 0xB1, CHR 0xBB, CHR 0xE4, CHR 0xB8, CHR 0xAD,
     CHR 0x2E, CHR 0x2E, CHR 0x2E]"

definition text_clustered :: string where
  "text_clustered =
    [CHR 0xE8, CHR 0x81, CHR 0x9A, CHR 0xE7, CHR 0xB1, CHR 0xBB, CHR 0xE5, CHR 0xAE,
     CHR 0x8C, CHR 0xE6, CHR 0x88, CHR 0x90]"

definition text_cluster_failed :: string where
  "text_cluster_failed =
    [CHR 0xE8, CHR 0x81, CHR 0x9A, CHR 0xE7, CHR 0xB1, CHR 0xBB, CHR 0xE5, CHR 0x88,
     CHR 0x86, CHR 0xE6, CHR 0x9E, CHR 0x90, CHR 0xE5, CHR 0xA4, CHR 0xB1, CHR 0xE8,
     CHR 0xB4, CHR 0xA5]"

definition text_cluster_file_missing :: string where
  "text_cluster_file_missing =
    [CHR 0xE6, CHR 0x97, CHR 0xA0, CHR 0xE6, CHR 0xB3, CHR 0x95, CHR 0xE6, CHR 0x89,
     CHR 0xBE, CHR 0xE5, CHR 0x88, CHR 0xB0, CHR 0xE8, CHR 0x81, CHR 0x9A, CHR 0xE7,
     CHR 0xB1, CHR 0xBB, CHR 0xE6, CHR 0x96, CHR 0x87, CHR 0xE4, CHR 0xBB, CHR 0xB6,
     CHR 0xEF, CHR 0xBC, CHR 0x8C, CHR 0xE8, CHR 0xAF, CHR 0xB7, CHR 0xE9, CHR 0x87,
     CHR 0x8D, CHR 0xE6, CHR 0x96, CHR 0xB0, CHR 0xE6, CHR 0x89, CHR 0xA7, CHR 0xE8,
     CHR 0xA1, CHR 0x8C, CHR 0xE7, CHR 0xAC, CHR 0xAC, CHR 0xE4, CHR 0xBA, CHR 0x8C,
     CHR 0xE6, CHR 0xAD, CHR 0xA5]"

definition text_downloading_clustered :: string where
  "text_downloading_clustered =
    [CHR 0xE6, CHR 0xAD, CHR 0xA3, CHR 0xE5, CHR 0x9C, CHR 0xA8, CHR 0xE4, CHR 0xB8,
     CHR 0x8B, CHR 0xE8, CHR 0xBD, CHR 0xBD, CHR 0xE8, CHR 0x81, CHR 0x9A, CHR 0xE7,
     CHR 0xB1, CHR 0xBB, CHR 0xE6, CHR 0x96, CHR 0x87, CHR 0xE4, CHR 0xBB, CHR 0xB6,
     CHR 0x2E, CHR 0x2E, CHR 0x2E]"

definition text_summarizing :: string where
  "text_summarizing =
    [CHR 0x41, CHR 0x49, CHR 0x20, CHR 0xE6, CHR 0xAD, CHR 0xA3, CHR 0xE5, CHR 0x9C,
     CHR 0xA8, CHR 0xE9, CHR 0x98, CHR 0x85, CHR 0xE8, CHR 0xAF, CHR 0xBB, CHR 0xE5,
     CHR 0xB9, CHR 0xB6, CHR 0xE7, CHR 0x94, CHR 0x9F, CHR 0xE6, CHR 0x88, CHR 0x90,
     CHR 0xE6, CHR 0xA0, CHR 0x87, CHR 0xE7, CHR 0xAD, CHR 0xBE, CHR 0x20, CHR 0x28,
     CHR 0xE8, CHR 0xAF, CHR 0xB7, CHR 0xE7, CHR 0xA8, CHR 0x8D, CHR 0xE5, CHR 0x80,
     CHR 0x99, CHR 0x29, CHR 0x2E, CHR 0x2E, CHR 0x2E]"

definition text_summarized :: string where
  "text_summarized =
    [CHR 0xE6, CHR 0x91, CHR 0x98, CHR 0xE8, CHR 0xA6, CHR 0x81, CHR 0xE7, CHR 0x94,
     CHR 0x9F, CHR 0xE6, CHR 0x88, CHR 0x90, CHR 0xE5, CHR 0xAE, CHR 0x8C, CHR 0xE6,
     CHR 0x88, CHR 0x90]"

definition text_llm_failed :: string where
  "text_llm_failed =
    [CHR 0x4C, CHR 0x4C, CHR 0x4D, CHR 0x20, CHR 0xE8, CHR 0xB0, CHR 0x83, CHR 0xE7,
     CHR 0x94, CHR 0xA8, CHR 0xE5, CHR 0xA4, CHR 0xB1, CHR 0xE8, CHR 0xB4, CHR 0xA5]"

definition default_column :: string where
  "default_column =
    [CHR 0xE4, CHR 0xB8, CHR 0x9A, CHR 0xE5, CHR 0x8A, CHR 0xA1, CHR 0xE5, CHR 0x86,
     CHR 0x85, CHR 0xE5, CHR 0xAE, CHR 0xB9]"

definition default_originalColumn :: string where
  "default_originalColumn =
    [CHR 0xE4, CHR 0xB8, CHR 0x9A, CHR 0xE5, CHR 0x8A, CHR 0xA1, CHR 0xE7, CHR 0xBC,
     CHR 0x96, CHR 0xE5, CHR 0x8F, CHR 0xB7]"

text \<open>
  The initial state. The credential the source starts with is a literal of the source;
  it is a parameter here.
\<close>

definition initial :: "string \<Rightarrow> HomePage" where
  "initial key =
     (let clean = \<lparr>extractor = ''12366'', useNer = True, column = default_column\<rparr>;
          cluster = \<lparr>nNeighbors = 15, nComponents = 5, minCluster = 10, topN = 5,
                     textColumn = ''Sanitized_Content'',
                     originalColumn = default_originalColumn\<rparr>;
          llm = \<lparr>apiKey = key, baseUrl = ''https://api.deepseek.com''\<rparr>
      in \<lparr>file = None, preprocessResult = None, clusterResult = None,
          keywordsResult = None, realClusteredFilename = None,
          realKeywordsFilename = None,
          step1Loading = False, step1Progress = 0, step1ProgressText = [],
          step2Loading = False, step2Progress = 0, step2ProgressText = [],
          step3Loading = False, step3Progress = 0, step3ProgressText = [],
          error = None,
          cleanDialogOpen = False, clusterDialogOpen = False, llmDialogOpen = False,
          cleanCfg = clean, clusterCfg = cluster, llmCfg = llm,
          tempClean = clean, tempCluster = cluster, tempLlm = llm\<rparr>)"

subsection \<open>Derived values of a render\<close>

definition step1Status :: "HomePage \<Rightarrow> StepStatus" where
  "step1Status s =
     (if step1Loading s then Running
      else if preprocessResult s \<noteq> None then Done
      else if file s \<noteq> None then Ready else Ready)"

definition step2Status :: "HomePage \<Rightarrow> StepStatus" where
  "step2Status s =
     (if step2Loading s then Running
      else if clusterResult s \<noteq> None then Done
      else if preprocessResult s \<noteq> None then Ready else Waiting)"

definition step3Status :: "HomePage \<Rightarrow> StepStatus" where
  "step3Status s =
     (if step3Loading s then Running
      else if keywordsResult s \<noteq> None then Done
      else if clusterResult s \<noteq> None then Ready else Waiting)"

definition processedFilename :: "HomePage \<Rightarrow> string option" where
  "processedFilename s =
     (case file s of None \<Rightarrow> None | Some f \<Rightarrow> Some (''processed_'' @ file_name f))"

definition fallbackClusteredFilename :: "HomePage \<Rightarrow> string option" where
  "fallbackClusteredFilename s =
     (case file s of None \<Rightarrow> None | Some f \<Rightarrow> Some (''clustered_'' @ file_name f))"

definition fallbackKeywordsFilename :: "HomePage \<Rightarrow> string option" where
  "fallbackKeywordsFilename s =
     (case file s of None \<Rightarrow> None | Some f \<Rightarrow> Some (''keywords_'' @ file_name f))"

text \<open>Truthiness of a value that is a string or null, and \<open>a || b\<close> on two of them.\<close>

definition truthy :: "string option \<Rightarrow> bool" where
  "truthy v = (case v of None \<Rightarrow> False | Some x \<Rightarrow> x \<noteq> [])"

definition or_else :: "string option \<Rightarrow> string option \<Rightarrow> string option" where
  "or_else a b = (if truthy a then a else b)"

text \<open>
  \<open>fullPath.split(/[/\\]/)\<close>: the segments between forward and back slashes; the
  result is never empty. \<open>pop\<close> gives the last segment. File names are
  kept as byte strings in UTF-8, where the two slashes are single bytes that occur
  inside no other character, so that the segments are those of the source's string.
\<close>

definition is_slash :: "char \<Rightarrow> bool" where
  "is_slash c = (c = CHR ''/'' \<or> c = CHR 0x5C)"

fun split_path :: "string \<Rightarrow> string list" where
  "split_path [] = [[]]"
| "split_path (c # cs) =
     (if is_slash c then [] # split_path cs
      else (case split_path cs of
              [] \<Rightarrow> [[c]]
            | seg # segs \<Rightarrow> (c # seg) # segs))"

definition pop :: "'a list \<Rightarrow> 'a option" where
  "pop xs = (if xs = [] then None else Some (last xs))"

text \<open>
  The name a stage records from its response:
  \<open>if (res && res.output_file) { const realName = fullPath.split(...).pop();
  if (realName) setReal...Filename(realName) }\<close>.
  The result is the name to record, if any.
\<close>

definition realName :: "string option \<Rightarrow> string option" where
  "realName output_file =
     (if truthy output_file
      then (case output_file of
              None \<Rightarrow> None
            | Some fullPath \<Rightarrow>
                (let r = pop (split_path fullPath) in if truthy r then r else None))
      else None)"

text \<open>The name stage 3 downloads, and the names behind the two download buttons.\<close>

definition targetFilename :: "HomePage \<Rightarrow> string option" where
  "targetFilename s = or_else (realClusteredFilename s) (fallbackClusteredFilename s)"

definition keywordsDownloadName :: "HomePage \<Rightarrow> string option" where
  "keywordsDownloadName s = or_else (realKeywordsFilename s) (fallbackKeywordsFilename s)"

subsection \<open>The three stage handlers\<close>

text \<open>
  A handler runs until it awaits, and is resumed when what it awaits settles. Each
  piece below is the code between two awaits; it returns the new state, the remote
  calls it issued, and what the handler waits for next (nothing once it has returned).
  The values a handler read from its render (the file, the configuration, the resolved
  name) travel with the pending task.
\<close>

datatype call =
    PreprocessCall jsfile string bool string
  | DownloadCall string
  | ClusterCall jsfile string string int int int int bool
  | ExtractKeywordsCall jsfile string string string

datatype task1 = AwaitTimer jsfile CleanConfig | AwaitPreprocess

datatype task2 = AwaitDownload2 string ClusterConfig | AwaitCluster

datatype task3 = AwaitDownload3 string LlmConfig | AwaitKeywords

definition message_of :: "thrown \<Rightarrow> string \<Rightarrow> string" where
  "message_of err fallback = (case err of ErrorObj m \<Rightarrow> m | OtherValue \<Rightarrow> fallback)"

definition spreadsheet :: "string \<Rightarrow> string \<Rightarrow> jsfile" where
  "spreadsheet bytes nm = \<lparr>file_name = nm, file_bytes = bytes\<rparr>"

definition handleStep1_enter :: "HomePage \<Rightarrow> HomePage \<times> call list \<times> task1 option" where
  "handleStep1_enter s =
     (case file s of
        None \<Rightarrow> (s, [], None)
      | Some f \<Rightarrow>
          (s\<lparr>step1Loading := True, error := None, preprocessResult := None,
             clusterResult := None, keywordsResult := None,
             realClusteredFilename := None, realKeywordsFilename := None,
             step1Progress := 15, step1ProgressText := text_uploading\<rparr>,
           [], Some (AwaitTimer f (cleanCfg s))))"

definition handleStep1_timer ::
    "jsfile \<Rightarrow> CleanConfig \<Rightarrow> HomePage \<Rightarrow> HomePage \<times> call list \<times> task1 option" where
  "handleStep1_timer f cfg s =
     (s\<lparr>step1Progress := 40, step1ProgressText := text_extracting\<rparr>,
      [PreprocessCall f (extractor cfg) (useNer cfg) (column cfg)],
      Some AwaitPreprocess)"

definition handleStep1_failed :: "thrown \<Rightarrow> HomePage \<Rightarrow> HomePage" where
  "handleStep1_failed err s =
     s\<lparr>error := Some (message_of err text_preprocess_failed), step1Loading := False\<rparr>"

definition handleStep1_settle ::
    "thrown + PreprocessResponse \<Rightarrow> HomePage \<Rightarrow> HomePage \<times> call list \<times> task1 option" where
  "handleStep1_settle outcome s =
     (case outcome of
        Inl err \<Rightarrow> (handleStep1_failed err s, [], None)
      | Inr res \<Rightarrow>
          (s\<lparr>step1Progress := 100, step1ProgressText := text_processed,
             preprocessResult := Some res, step1Loading := False\<rparr>, [], None))"

definition handleStep2_enter :: "HomePage \<Rightarrow> HomePage \<times> call list \<times> task2 option" where
  "handleStep2_enter s =
     (if \<not> truthy (processedFilename s) then (s, [], None)
      else (case processedFilename s of
              None \<Rightarrow> (s, [], None)
            | Some pf \<Rightarrow>
                (s\<lparr>step2Loading := True, error := None, clusterResult := None,
                   keywordsResult := None, realKeywordsFilename := None,
                   step2Progress := 10, step2ProgressText := text_downloading_processed\<rparr>,
                 [DownloadCall pf], Some (AwaitDownload2 pf (clusterCfg s)))))"

definition handleStep2_failed :: "thrown \<Rightarrow> HomePage \<Rightarrow> HomePage" where
  "handleStep2_failed err s =
     s\<lparr>error := Some (message_of err text_cluster_failed), step2Loading := False\<rparr>"

definition handleStep2_downloaded ::
    "string \<Rightarrow> ClusterConfig \<Rightarrow> thrown + string \<Rightarrow> HomePage
      \<Rightarrow> HomePage \<times> call list \<times> task2 option" where
  "handleStep2_downloaded pf cfg outcome s =
     (case outcome of
        Inl err \<Rightarrow> (handleStep2_failed err s, [], None)
      | Inr bytes \<Rightarrow>
          (s\<lparr>step2Progress := 30, step2ProgressText := text_clustering\<rparr>,
           [ClusterCall (spreadsheet bytes pf) (textColumn cfg) (originalColumn cfg)
              (nNeighbors cfg) (nComponents cfg) (minCluster cfg) (topN cfg) True],
           Some AwaitCluster))"

definition handleStep2_settle ::
    "thrown + ClusterResponse \<Rightarrow> HomePage \<Rightarrow> HomePage \<times> call list \<times> task2 option" where
  "handleStep2_settle outcome s =
     (case outcome of
        Inl err \<Rightarrow> (handleStep2_failed err s, [], None)
      | Inr res \<Rightarrow>
          (let s1 = s\<lparr>step2Progress := 100, step2ProgressText := text_clustered\<rparr>;
               s2 = (case realName (cl_output_file res) of
                       None \<Rightarrow> s1
                     | Some n \<Rightarrow> s1\<lparr>realClusteredFilename := Some n\<rparr>)
           in (s2\<lparr>clusterResult := Some res, step2Loading := False\<rparr>, [], None)))"

definition handleStep3_enter :: "HomePage \<Rightarrow> HomePage \<times> call list \<times> task3 option" where
  "handleStep3_enter s =
     (if \<not> truthy (targetFilename s)
      then (s\<lparr>error := Some text_cluster_file_missing\<rparr>, [], None)
      else if apiKey (llmCfg s) = [] then (s\<lparr>llmDialogOpen := True\<rparr>, [], None)
      else (case targetFilename s of
              None \<Rightarrow> (s\<lparr>error := Some text_cluster_file_missing\<rparr>, [], None)
            | Some tf \<Rightarrow>
                (s\<lparr>step3Loading := True, error := None, keywordsResult := None,
                   step3Progress := 15, step3ProgressText := text_downloading_clustered\<rparr>,
                 [DownloadCall tf], Some (AwaitDownload3 tf (llmCfg s)))))"

definition handleStep3_failed :: "thrown \<Rightarrow> HomePage \<Rightarrow> HomePage" where
  "handleStep3_failed err s =
     s\<lparr>error := Some (message_of err text_llm_failed), step3Loading := False\<rparr>"

definition handleStep3_downloaded ::
    "string \<Rightarrow> LlmConfig \<Rightarrow> thrown + string \<Rightarrow> HomePage
      \<Rightarrow> HomePage \<times> call list \<times> task3 option" where
  "handleStep3_downloaded tf cfg outcome s =
     (case outcome of
        Inl err \<Rightarrow> (handleStep3_failed err s, [], None)
      | Inr bytes \<Rightarrow>
          (s\<lparr>step3Progress := 40, step3ProgressText := text_summarizing\<rparr>,
           [ExtractKeywordsCall (spreadsheet bytes tf) (apiKey cfg) (baseUrl cfg) ''Text''],
           Some AwaitKeywords))"

definition handleStep3_settle ::
    "thrown + KeywordsResponse \<Rightarrow> HomePage \<Rightarrow> HomePage \<times> call list \<times> task3 option" where
  "handleStep3_settle outcome s =
     (case outcome of
        Inl err \<Rightarrow> (handleStep3_failed err s, [], None)
      | Inr res \<Rightarrow>
          (let s1 = s\<lparr>step3Progress := 100, step3ProgressText := text_summarized\<rparr>;
               s2 = (case realName (kw_output_file res) of
                       None \<Rightarrow> s1
                     | Some n \<Rightarrow> s1\<lparr>realKeywordsFilename := Some n\<rparr>)
           in (s2\<lparr>keywordsResult := Some res, step3Loading := False\<rparr>, [], None)))"

subsection \<open>One handler run from start to end\<close>

text \<open>
  A run of a handler with nothing else happening in between, given how each call it
  may issue settles: the final state and every remote call issued, in order.
\<close>

definition handleStep1 ::
    "HomePage \<Rightarrow> thrown + PreprocessResponse \<Rightarrow> HomePage \<times> call list" where
  "handleStep1 s pre =
     (case handleStep1_enter s of
        (s1, q1, Some (AwaitTimer f cfg)) \<Rightarrow>
          (case handleStep1_timer f cfg s1 of
             (s2, q2, _) \<Rightarrow>
               (case handleStep1_settle pre s2 of (s3, q3, _) \<Rightarrow> (s3, q1 @ q2 @ q3)))
      | (s1, q1, _) \<Rightarrow> (s1, q1))"

definition handleStep2 ::
    "HomePage \<Rightarrow> thrown + string \<Rightarrow> thrown + ClusterResponse \<Rightarrow> HomePage \<times> call list" where
  "handleStep2 s dl cl =
     (case handleStep2_enter s of
        (s1, q1, Some (AwaitDownload2 pf cfg)) \<Rightarrow>
          (case handleStep2_downloaded pf cfg dl s1 of
             (s2, q2, Some _) \<Rightarrow>
               (case handleStep2_settle cl s2 of (s3, q3, _) \<Rightarrow> (s3, q1 @ q2 @ q3))
           | (s2, q2, None) \<Rightarrow> (s2, q1 @ q2))
      | (s1, q1, _) \<Rightarrow> (s1, q1))"

definition handleStep3 ::
    "HomePage \<Rightarrow> thrown + string \<Rightarrow> thrown + KeywordsResponse \<Rightarrow> HomePage \<times> call list" where
  "handleStep3 s dl kw =
     (case handleStep3_enter s of
        (s1, q1, Some (AwaitDownload3 tf cfg)) \<Rightarrow>
          (case handleStep3_downloaded tf cfg dl s1 of
             (s2, q2, Some _) \<Rightarrow>
               (case handleStep3_settle kw s2 of (s3, q3, _) \<Rightarrow> (s3, q1 @ q2 @ q3))
           | (s2, q2, None) \<Rightarrow> (s2, q1 @ q2))
      | (s1, q1, _) \<Rightarrow> (s1, q1))"

subsection \<open>The page as an event-driven system\<close>

text \<open>
  The run button of a stage card is disabled while the card's status is running or
  waiting (and, for stage 1, while no file is selected); a click on a disabled button
  reaches no handler. Between two events the page is rendered, so a click runs the
  handler of the current state. The system pairs the page state with the pending task
  of each stage; an event that settles something no task waits for is ignored.
\<close>

definition run_button_disabled :: "StepStatus \<Rightarrow> bool \<Rightarrow> bool" where
  "run_button_disabled st runDisabled = (runDisabled \<or> st = Running \<or> st = Waiting)"

definition clickRun1 :: "HomePage \<Rightarrow> HomePage \<times> call list \<times> task1 option" where
  "clickRun1 s =
     (if run_button_disabled (step1Status s) (file s = None) then (s, [], None)
      else handleStep1_enter s)"

definition clickRun2 :: "HomePage \<Rightarrow> HomePage \<times> call list \<times> task2 option" where
  "clickRun2 s =
     (if run_button_disabled (step2Status s) False then (s, [], None)
      else handleStep2_enter s)"

definition clickRun3 :: "HomePage \<Rightarrow> HomePage \<times> call list \<times> task3 option" where
  "clickRun3 s =
     (if run_button_disabled (step3Status s) False then (s, [], None)
      else handleStep3_enter s)"

record system =
  page :: HomePage
  pending1 :: "task1 option"
  pending2 :: "task2 option"
  pending3 :: "task3 option"
  issued :: "call list"

datatype event =
    SetFile "jsfile option"
  | ConfigureLlm
  | EditLlm LlmConfig
  | SaveLlm
  | ClickRun1
  | ClickRun2
  | ClickRun3
  | TimerFires
  | PreprocessSettles "thrown + PreprocessResponse"
  | Download2Settles "thrown + string"
  | ClusterSettles "thrown + ClusterResponse"
  | Download3Settles "thrown + string"
  | KeywordsSettles "thrown + KeywordsResponse"

definition start :: "string \<Rightarrow> system" where
  "start key = \<lparr>page = initial key, pending1 = None, pending2 = None, pending3 = None,
                issued = []\<rparr>"

definition advance1 :: "system \<Rightarrow> HomePage \<times> call list \<times> task1 option \<Rightarrow> system" where
  "advance1 sys r =
     (case r of (s, q, t) \<Rightarrow> sys\<lparr>page := s, pending1 := t, issued := issued sys @ q\<rparr>)"

definition advance2 :: "system \<Rightarrow> HomePage \<times> call list \<times> task2 option \<Rightarrow> system" where
  "advance2 sys r =
     (case r of (s, q, t) \<Rightarrow> sys\<lparr>page := s, pending2 := t, issued := issued sys @ q\<rparr>)"

definition advance3 :: "system \<Rightarrow> HomePage \<times> call list \<times> task3 option \<Rightarrow> system" where
  "advance3 sys r =
     (case r of (s, q, t) \<Rightarrow> sys\<lparr>page := s, pending3 := t, issued := issued sys @ q\<rparr>)"

fun step :: "system \<Rightarrow> event \<Rightarrow> system" where
  "step sys (SetFile f) = sys\<lparr>page := (page sys)\<lparr>file := f\<rparr>\<rparr>"
| "step sys ConfigureLlm =
     sys\<lparr>page := (page sys)\<lparr>tempLlm := llmCfg (page sys), llmDialogOpen := True\<rparr>\<rparr>"
| "step sys (EditLlm cfg) = sys\<lparr>page := (page sys)\<lparr>tempLlm := cfg\<rparr>\<rparr>"
| "step sys SaveLlm =
     sys\<lparr>page := (page sys)\<lparr>llmCfg := tempLlm (page sys), llmDialogOpen := False\<rparr>\<rparr>"
| "step sys ClickRun1 =
     (case clickRun1 (page sys) of
        (s, q, None) \<Rightarrow> sys\<lparr>page := s, issued := issued sys @ q\<rparr>
      | r \<Rightarrow> advance1 sys r)"
| "step sys ClickRun2 =
     (case clickRun2 (page sys) of
        (s, q, None) \<Rightarrow> sys\<lparr>page := s, issued := issued sys @ q\<rparr>
      | r \<Rightarrow> advance2 sys r)"
| "step sys ClickRun3 =
     (case clickRun3 (page sys) of
        (s, q, None) \<Rightarrow> sys\<lparr>page := s, issued := issued sys @ q\<rparr>
      | r \<Rightarrow> advance3 sys r)"
| "step sys TimerFires =
     (case pending1 sys of
        Some (AwaitTimer f cfg) \<Rightarrow> advance1 sys (handleStep1_timer f cfg (page sys))
      | _ \<Rightarrow> sys)"
| "step sys (PreprocessSettles outcome) =
     (case pending1 sys of
        Some AwaitPreprocess \<Rightarrow> advance1 sys (handleStep1_settle outcome (page sys))
      | _ \<Rightarrow> sys)"
| "step sys (Download2Settles outcome) =
     (case pending2 sys of
        Some (AwaitDownload2 pf cfg) \<Rightarrow>
          advance2 sys (handleStep2_downloaded pf cfg outcome (page sys))
      | _ \<Rightarrow> sys)"
| "step sys (ClusterSettles outcome) =
     (case pending2 sys of
        Some AwaitCluster \<Rightarrow> advance2 sys (handleStep2_settle outcome (page sys))
      | _ \<Rightarrow> sys)"
| "step sys (Download3Settles outcome) =
     (case pending3 sys of
        Some (AwaitDownload3 tf cfg) \<Rightarrow>
          advance3 sys (handleStep3_downloaded tf cfg outcome (page sys))
      | _ \<Rightarrow> sys)"
| "step sys (KeywordsSettles outcome) =
     (case pending3 sys of
        Some AwaitKeywords \<Rightarrow> advance3 sys (handleStep3_settle outcome (page sys))
      | _ \<Rightarrow> sys)"

definition run :: "system \<Rightarrow> event list \<Rightarrow> system" where
  "run sys evs = foldl step sys evs"

subsection \<open>Vocabulary for the statements\<close>

definition noise_rows :: "ClusterRow list \<Rightarrow> ClusterRow list" where
  "noise_rows rows = filter (\<lambda>r. Cluster r = - 1) rows"

definition topic_rows :: "ClusterRow list \<Rightarrow> ClusterRow list" where
  "topic_rows rows = filter (\<lambda>r. Cluster r \<noteq> - 1) rows"

text \<open>
  A stage is idle when none of its calls is in flight. An event is the success of
  stage 1 (of stage 2) when it settles the stage's final call with a result.
\<close>

definition stage2_idle :: "system \<Rightarrow> bool" where
  "stage2_idle sys = (pending2 sys = None \<and> \<not> step2Loading (page sys))"

definition stage3_idle :: "system \<Rightarrow> bool" where
  "stage3_idle sys = (pending3 sys = None \<and> \<not> step3Loading (page sys))"

definition is_preprocess_success :: "event \<Rightarrow> bool" where
  "is_preprocess_success e = (case e of PreprocessSettles (Inr _) \<Rightarrow> True | _ \<Rightarrow> False)"

definition is_cluster_success :: "event \<Rightarrow> bool" where
  "is_cluster_success e = (case e of ClusterSettles (Inr _) \<Rightarrow> True | _ \<Rightarrow> False)"

text \<open>
  Everything after stage 1 is reset and idle; everything after stage 2 is reset and
  idle.
\<close>

definition downstream_of_1_reset :: "system \<Rightarrow> bool" where
  "downstream_of_1_reset sys =
     (stage2_idle sys \<and> stage3_idle sys
      \<and> preprocessResult (page sys) = None \<and> clusterResult (page sys) = None
      \<and> keywordsResult (page sys) = None
      \<and> realClusteredFilename (page sys) = None
      \<and> realKeywordsFilename (page sys) = None)"

definition downstream_of_2_reset :: "system \<Rightarrow> bool" where
  "downstream_of_2_reset sys =
     (stage3_idle sys \<and> clusterResult (page sys) = None
      \<and> keywordsResult (page sys) = None
      \<and> realKeywordsFilename (page sys) = None)"

definition is_object :: "'n json \<Rightarrow> bool" where
  "is_object j = (case j of JObj _ \<Rightarrow> True | _ \<Rightarrow> False)"

text \<open>The counts are small enough for every sum over them to be exact.\<close>

definition exact_sums :: "ClusterRow list \<Rightarrow> bool" where
  "exact_sums rows = (sum_list (map (\<lambda>r. \<bar>row_count r\<bar>) rows) \<le> 2 ^ 53)"



definition final_segment :: "string \<Rightarrow> string" where
  "final_segment p = rev (takeWhile (\<lambda>c. \<not> is_slash c) (rev p))"

subsection \<open>Concrete inputs\<close>

definition zero_count_rows :: "ClusterRow list" where
  "zero_count_rows = [\<lparr>Cluster = 0, LLM_Keywords = ascii ''tax'', Count = Some 0\<rparr>,
              \<lparr>Cluster = 1, LLM_Keywords = ascii ''fee'', Count = Some 5\<rparr>]"

definition scenario_rows :: "ClusterRow list" where
  "scenario_rows = [\<lparr>Cluster = 0, LLM_Keywords = ascii ''tax'', Count = Some 50\<rparr>,
                    \<lparr>Cluster = 1, LLM_Keywords = ascii ''fee'', Count = Some 30\<rparr>,
                    \<lparr>Cluster = - 1, LLM_Keywords = ascii ''other'', Count = Some 20\<rparr>]"

definition two_noise_rows :: "ClusterRow list" where
  "two_noise_rows = [\<lparr>Cluster = 0, LLM_Keywords = ascii ''tax'', Count = Some 50\<rparr>,
              \<lparr>Cluster = - 1, LLM_Keywords = ascii ''other'', Count = Some 20\<rparr>,
              \<lparr>Cluster = - 1, LLM_Keywords = ascii ''rest'', Count = Some 30\<rparr>]"

definition negative_total_rows :: "ClusterRow list" where
  "negative_total_rows = [\<lparr>Cluster = 0, LLM_Keywords = ascii ''tax'', Count = Some (- 3)\<rparr>,
                          \<lparr>Cluster = 1, LLM_Keywords = ascii ''fee'', Count = Some 1\<rparr>]"

definition rounding_rows :: "ClusterRow list" where
  "rounding_rows =
     [\<lparr>Cluster = 0, LLM_Keywords = ascii ''tax'', Count = Some 9007199254740992\<rparr>,
      \<lparr>Cluster = - 1, LLM_Keywords = ascii ''other'', Count = Some 1\<rparr>]"

definition topics_only_rows :: "ClusterRow list" where
  "topics_only_rows = [\<lparr>Cluster = 0, LLM_Keywords = ascii ''tax'', Count = Some 50\<rparr>,
                       \<lparr>Cluster = 1, LLM_Keywords = ascii ''fee'', Count = None\<rparr>]"

definition shared_id_rows :: "ClusterRow list" where
  "shared_id_rows = [\<lparr>Cluster = 0, LLM_Keywords = ascii ''tax'', Count = Some 5\<rparr>,
              \<lparr>Cluster = 0, LLM_Keywords = ascii ''fee'', Count = Some 3\<rparr>]"

text \<open>
  One engine, for the examples: the numbers are integers, rendered in decimal, and the
  message is the one V8 gives.
\<close>

definition decimal :: "int \<Rightarrow> string" where
  "decimal n = (if n < 0 then ''-'' @ string_of_nat (nat (- n)) else string_of_nat (nat n))"

definition v8 :: "int engine" where
  "v8 = \<lparr>number_text = decimal, number_is_zero = (\<lambda>n. n = 0),
          null_property_text =
            ''Cannot read properties of null (reading '' @ [CHR 0x27] @ ''detail''
              @ [CHR 0x27] @ '')''\<rparr>"

definition survey :: jsfile where
  "survey = \<lparr>file_name = ''survey.xlsx'', file_bytes = ''raw''\<rparr>"

definition pre_ok :: PreprocessResponse where
  "pre_ok = \<lparr>pre_message = ''ok'', total_rows = 100, valid_rows = 90, removed_rows = 10\<rparr>"

text \<open>Replies outside the 2xx range; the typed view of their body plays no part.\<close>

definition unparseable_reply :: "(int, PreprocessResponse) http_response" where
  "unparseable_reply = \<lparr>status = 500, body = NotJson ''Unexpected token''\<rparr>"

definition not_found_reply :: "(int, PreprocessResponse) http_response" where
  "not_found_reply =
     \<lparr>status = 404, body = Json (JObj [(''detail'', JStr ''File not found'')]) pre_ok\<rparr>"

definition validation_reply :: "(int, PreprocessResponse) http_response" where
  "validation_reply =
     \<lparr>status = 422,
      body = Json (JObj [(''detail'', JArr [JObj [(''msg'', JStr ''field required'')]])]) pre_ok\<rparr>"

definition null_reply :: "(int, PreprocessResponse) http_response" where
  "null_reply = \<lparr>status = 500, body = Json JNull pre_ok\<rparr>"

definition missing_download :: download_response where
  "missing_download = \<lparr>status = 404, blob = ''File not found''\<rparr>"

definition cl_ok :: ClusterResponse where
  "cl_ok = \<lparr>cl_message = ''ok'', total_texts = 90, n_clusters = 2, n_noise = 20,
            cl_output_file = Some ''out/clustered_report.xlsx''\<rparr>"

definition kw_ok :: KeywordsResponse where
  "kw_ok = \<lparr>kw_message = ''ok'', result = Some scenario_rows,
            kw_output_file = Some ''out/keywords_report.xlsx''\<rparr>"

text \<open>Stage 1 has completed and stage 2 is in flight.\<close>

definition stage2_inflight :: system where
  "stage2_inflight =
     run (start ''key'')
       [SetFile (Some survey), ClickRun1, TimerFires, PreprocessSettles (Inr pre_ok),
        ClickRun2]"

text \<open>
  Stage 1 was run again while stage 2 was in flight, and stage 2 then completed:
  stage 1 is running and has no result, stage 2 shows a result.
\<close>

definition stage2_overtaken :: system where
  "stage2_overtaken =
     run stage2_inflight
       [ClickRun1, Download2Settles (Inr ''cleaned''), ClusterSettles (Inr cl_ok)]"

text \<open>All three stages have completed, one after the other.\<close>

definition all_completed :: system where
  "all_completed =
     run stage2_inflight
       [Download2Settles (Inr ''cleaned''), ClusterSettles (Inr cl_ok), ClickRun3,
        Download3Settles (Inr ''clustered''), KeywordsSettles (Inr kw_ok)]"


text \<open>
  What follows a new start of stage 1 whose call fails, with clicks on the later stages
  after the failure.
\<close>

definition rerun_fails :: "event list" where
  "rerun_fails =
     [TimerFires, ClickRun2, PreprocessSettles (Inl (ErrorObj ''HTTP 500'')),
      ClickRun2, ClickRun3]"

text \<open>Stages 1 and 2 have completed and stage 3 has failed at its download.\<close>

definition stage3_failed :: system where
  "stage3_failed =
     run stage2_inflight
       [Download2Settles (Inr ''cleaned''), ClusterSettles (Inr cl_ok), ClickRun3,
        Download3Settles (Inl (ErrorObj ''timeout''))]"

text \<open>After that failure the credential is emptied through the dialog.\<close>

definition key_emptied :: system where
  "key_emptied =
     run stage3_failed
       [ConfigureLlm, EditLlm \<lparr>apiKey = [], baseUrl = ''https://api.deepseek.com''\<rparr>,
        SaveLlm]"

text \<open>Stage 1 is run again while stage 2 is in flight, and stage 2 then fails.\<close>

definition stage2_failed_in_rerun :: system where
  "stage2_failed_in_rerun =
     run stage2_inflight [ClickRun1, Download2Settles (Inl (ErrorObj ''HTTP 404''))]"

text \<open>Stage 2 is run again while stage 3 is in flight.\<close>

definition both_in_flight :: system where
  "both_in_flight =
     run stage2_inflight
       [Download2Settles (Inr ''cleaned''), ClusterSettles (Inr cl_ok), ClickRun3,
        ClickRun2]"

text \<open>No file is selected and the credential is empty.\<close>

definition no_file_no_key :: HomePage where
  "no_file_no_key = initial []"

section \<open>Properties of the aggregation\<close>


lemma drop_bits_small: "n < 2 ^ 53 \<Longrightarrow> drop_bits n = 0"
  by (subst drop_bits.simps) simp

lemma round_double_exact: "\<bar>x\<bar> \<le> 2 ^ 53 \<Longrightarrow> round_double x = x"
proof (cases "\<bar>x\<bar> < 2 ^ 53")
  case True
  then have "nat \<bar>x\<bar> < 2 ^ 53"
    by (simp add: nat_less_iff)
  then have "drop_bits (nat \<bar>x\<bar>) = 0"
    by (rule drop_bits_small)
  then show ?thesis
    by (simp add: round_double_def Let_def mult_sgn_abs)
next
  case False
  assume "\<bar>x\<bar> \<le> 2 ^ 53"
  with False have m: "nat \<bar>x\<bar> = 9007199254740992"
    by simp
  have "drop_bits 9007199254740992 = Suc (drop_bits 4503599627370496)"
    by (subst drop_bits.simps) simp
  also have "\<dots> = Suc 0"
    by (simp add: drop_bits_small)
  finally have d: "drop_bits 9007199254740992 = Suc 0" .
  from m have "x = 9007199254740992 \<or> x = - 9007199254740992"
    by linarith
  then show ?thesis
    by (auto simp: round_double_def Let_def d)
qed

lemma js_add_exact: "\<bar>a + b\<bar> \<le> 2 ^ 53 \<Longrightarrow> js_add a b = a + b"
  by (simp add: js_add_def round_double_exact)

lemma sum_counts_acc:
  "\<bar>a\<bar> + sum_list (map (\<lambda>i. \<bar>count i\<bar>) xs) \<le> 2 ^ 53 \<Longrightarrow>
     foldl (\<lambda>sum item. js_add sum (count item)) a xs = a + sum_list (map count xs)"
proof (induction xs arbitrary: a)
  case Nil
  show ?case by simp
next
  case (Cons x xs)
  have "0 \<le> sum_list (map (\<lambda>i. \<bar>count i\<bar>) xs)"
    by (rule sum_list_nonneg) auto
  then have "\<bar>a + count x\<bar> \<le> 2 ^ 53"
    using Cons.prems by simp
  then have step: "js_add a (count x) = a + count x"
    by (rule js_add_exact)
  have "\<bar>a + count x\<bar> + sum_list (map (\<lambda>i. \<bar>count i\<bar>) xs) \<le> 2 ^ 53"
    using Cons.prems by simp
  from Cons.IH [OF this] show ?case
    by (simp add: step)
qed

lemma sum_counts_sum_list:
  "sum_list (map (\<lambda>i. \<bar>count i\<bar>) xs) \<le> 2 ^ 53 \<Longrightarrow> sum_counts xs = sum_list (map count xs)"
  using sum_counts_acc [of 0 xs] by (simp add: sum_counts_def)

lemma sum_list_insort_key:
  "sum_list (map g (insort_key f x xs)) = g x + sum_list (map g xs)"
  for g :: "'a \<Rightarrow> int"
  by (induction xs) simp_all

lemma sum_list_sort_key:
  "sum_list (map g (sort_key f xs)) = sum_list (map g xs)"
  for g :: "'a \<Rightarrow> int"
  by (induction xs) (simp_all add: sum_list_insort_key)

lemma map_count_analysisList: "map count (analysisList rows) = map row_count rows"
  by (simp add: analysisList_def comp_def)

lemma totalRecords_aggregate:
  assumes "exact_sums rows"
  shows "totalRecords (aggregate rows) = sum_list (map row_count rows)"
proof -
  have "map (\<lambda>i. \<bar>count i\<bar>) (analysisList rows) = map (\<lambda>r. \<bar>row_count r\<bar>) rows"
    by (simp add: analysisList_def comp_def)
  then have "sum_counts (analysisList rows) = sum_list (map count (analysisList rows))"
    using assms by (intro sum_counts_sum_list) (simp add: exact_sums_def)
  then show ?thesis
    by (simp add: aggregate_def Let_def map_count_analysisList)
qed

text \<open>
  The percentage attached to an entry plays no part in counting or partitioning, so
  the lemmas about the entries hold for any percentage function.
\<close>

lemma filter_topic_entries:
  "map count (filter (\<lambda>i. clusterId i \<noteq> - 1)
           (map (\<lambda>item. \<lparr>clusterId = clusterId item, keyword = keyword item,
                             count = count item, percentage = p item\<rparr>)
              (analysisList rows)))
     = map row_count (topic_rows rows)"
  by (induction rows) (simp_all add: analysisList_def topic_rows_def)

lemma filter_processedList:
  "map count (filter (\<lambda>i. clusterId i \<noteq> - 1) (processedList rows))
     = map row_count (topic_rows rows)"
  unfolding processedList_def Let_def by (rule filter_topic_entries)

lemma abs_sum_topic_rows:
  "sum_list (map (\<lambda>r. \<bar>row_count r\<bar>) (topic_rows rows))
     \<le> sum_list (map (\<lambda>r. \<bar>row_count r\<bar>) rows)"
  by (induction rows) (simp_all add: topic_rows_def add_increasing)

lemma validCount_rows:
  assumes "exact_sums rows"
  shows "validCount rows = sum_list (map row_count (topic_rows rows))"
proof -
  let ?valid = "filter (\<lambda>i. clusterId i \<noteq> - 1) (processedList rows)"
  have "map (\<lambda>i. \<bar>count i\<bar>) ?valid = map abs (map count ?valid)"
    by simp
  also have "\<dots> = map (\<lambda>r. \<bar>row_count r\<bar>) (topic_rows rows)"
    by (simp only: filter_processedList) simp
  finally have "sum_list (map (\<lambda>i. \<bar>count i\<bar>) (validClusters rows))
                  = sum_list (map (\<lambda>r. \<bar>row_count r\<bar>) (topic_rows rows))"
    by (simp add: validClusters_def sum_list_sort_key)
  then have "sum_list (map (\<lambda>i. \<bar>count i\<bar>) (validClusters rows)) \<le> 2 ^ 53"
    using assms abs_sum_topic_rows [of rows] by (simp add: exact_sums_def)
  then have "validCount rows = sum_list (map count (validClusters rows))"
    unfolding validCount_def by (rule sum_counts_sum_list)
  then show ?thesis
    by (simp add: validClusters_def sum_list_sort_key filter_processedList)
qed

lemma topicCount_aggregate: "topicCount (aggregate rows) = length (topic_rows rows)"
proof -
  have "length (filter (\<lambda>i. clusterId i \<noteq> - 1) (processedList rows))
          = length (map row_count (topic_rows rows))"
    by (simp only: filter_processedList [symmetric] length_map)
  then show ?thesis
    by (simp add: aggregate_def Let_def validClusters_def)
qed

lemma find_noise_entry:
  "(case find (\<lambda>i. clusterId i = - 1)
           (map (\<lambda>item. \<lparr>clusterId = clusterId item, keyword = keyword item,
                             count = count item, percentage = p item\<rparr>)
              (analysisList rows)) of
      None \<Rightarrow> 0 | Some n \<Rightarrow> count n)
     = (case noise_rows rows of [] \<Rightarrow> 0 | r # _ \<Rightarrow> row_count r)"
  by (induction rows) (simp_all add: analysisList_def noise_rows_def)

lemma noiseCluster_count:
  "(case noiseCluster rows of None \<Rightarrow> 0 | Some n \<Rightarrow> count n)
     = (case noise_rows rows of [] \<Rightarrow> 0 | r # _ \<Rightarrow> row_count r)"
  unfolding noiseCluster_def processedList_def Let_def by (rule find_noise_entry)

lemma noiseCount_aggregate:
  "noiseCount (aggregate rows) = (case noise_rows rows of [] \<Rightarrow> 0 | r # _ \<Rightarrow> row_count r)"
  using noiseCluster_count [of rows] by (simp add: aggregate_def Let_def)

lemma sum_split_noise:
  "sum_list (map row_count rows)
     = sum_list (map row_count (topic_rows rows)) + sum_list (map row_count (noise_rows rows))"
  by (induction rows) (simp_all add: topic_rows_def noise_rows_def)

lemma coverage_aggregate:
  "coverage (aggregate rows) =
     (if totalRecords (aggregate rows) > 0
      then of_int (validCount rows) / of_int (totalRecords (aggregate rows)) else 0)"
  by (simp add: aggregate_def Let_def)

lemma noiseCount_single:
  assumes "length (noise_rows rows) = 1" and ex: "exact_sums rows"
  shows "noiseCount (aggregate rows) = totalRecords (aggregate rows) - validCount rows"
proof -
  from assms obtain r where r: "noise_rows rows = [r]"
    by (cases "noise_rows rows") simp_all
  have "totalRecords (aggregate rows) = validCount rows + row_count r"
    using sum_split_noise [of rows]
    by (simp add: totalRecords_aggregate [OF ex] validCount_rows [OF ex] r)
  moreover have "noiseCount (aggregate rows) = row_count r"
    by (simp add: noiseCount_aggregate r)
  ultimately show ?thesis by simp
qed

lemma topic_ids: "set (map Cluster (topic_rows rows)) = set (map Cluster rows) - {- 1}"
  by (auto simp: topic_rows_def)

lemmas aggregate_defs =
  aggregate_def noiseCluster_def processedList_def analysisList_def validCount_def
  validClusters_def row_count_def sum_counts_def bar_of_def reportData_def
  noise_rows_def topic_rows_def Let_def js_add_exact

section \<open>The claims about the aggregation\<close>

text \<open>
  C1. The claim: the count used for a row is its reported count when that is present
  and numeric, and 1 otherwise, so a row with a numeric count contributes exactly that
  count to \<open>totalRecords\<close>. The code tests the count for truthiness, so a reported
  count of 0 is replaced by 1: of two rows reporting 0 and 5 records, the first is
  counted as 1 and the total is 6.
\<close>

theorem C1_zero_count_contributes_one:
  "map Count zero_count_rows = [Some 0, Some 5]
   \<and> map count (analysisList zero_count_rows) = [1, 5]
   \<and> map_option totalRecords
        (reportData (Some \<lparr>kw_message = ''ok'', result = Some zero_count_rows,
                            kw_output_file = None\<rparr>)) = Some 6"
  by (simp add: zero_count_rows_def aggregate_defs)

text \<open>
  C7 as stated fails, in three ways. With two noise rows the claim gives
  \<open>noiseCount = 0\<close>, the code reports the count of the first noise row. With a
  negative total the claim gives the quotient as coverage, the code gives 0. With
  counts of \<open>2 ^ 53\<close> and 1 the sum is rounded, so with exactly one noise row
  \<open>totalRecords - validCount\<close> is 0 while \<open>noiseCount\<close> is 1.
\<close>

theorem C7_counterexample:
  "length (noise_rows two_noise_rows) \<noteq> 1
   \<and> noiseCount (aggregate two_noise_rows) \<noteq> 0
   \<and> totalRecords (aggregate negative_total_rows) \<noteq> 0
   \<and> coverage (aggregate negative_total_rows)
       \<noteq> of_int (validCount negative_total_rows)
           / of_int (totalRecords (aggregate negative_total_rows))
   \<and> length (noise_rows rounding_rows) = 1
   \<and> noiseCount (aggregate rounding_rows)
       \<noteq> totalRecords (aggregate rounding_rows) - validCount rounding_rows"
proof -
  have d: "drop_bits 9007199254740993 = Suc 0"
    by (subst drop_bits.simps, subst drop_bits.simps) simp
  have r: "js_add 9007199254740992 1 = 9007199254740992"
    by (simp add: js_add_def round_double_def Let_def d)
  have a: "length (noise_rows two_noise_rows) \<noteq> 1
           \<and> noiseCount (aggregate two_noise_rows) \<noteq> 0"
    by (simp add: two_noise_rows_def aggregate_defs)
  have b: "totalRecords (aggregate negative_total_rows) \<noteq> 0
           \<and> coverage (aggregate negative_total_rows)
               \<noteq> of_int (validCount negative_total_rows)
                   / of_int (totalRecords (aggregate negative_total_rows))"
    by (simp add: negative_total_rows_def aggregate_defs)
  have c: "length (noise_rows rounding_rows) = 1
           \<and> noiseCount (aggregate rounding_rows)
               \<noteq> totalRecords (aggregate rounding_rows) - validCount rounding_rows"
    by (simp add: rounding_rows_def aggregate_defs r)
  from a b c show ?thesis by blast
qed

text \<open>
  C7, amended. \<open>coverage\<close> is \<open>validCount / totalRecords\<close> when
  \<open>totalRecords\<close> is positive and 0 otherwise. \<open>noiseCount\<close> is 0 when no noise
  row exists and the count of the first noise row otherwise. When the counts are small
  enough for the sums to be exact, \<open>totalRecords\<close> is the sum of the row counts,
  \<open>validCount\<close> the sum over the rows that are not noise, and \<open>noiseCount\<close> is
  \<open>totalRecords - validCount\<close> when exactly one noise row exists.
\<close>

theorem C7_coverage_and_noise:
  "coverage (aggregate rows) =
     (if totalRecords (aggregate rows) > 0
      then of_int (validCount rows) / of_int (totalRecords (aggregate rows)) else 0)
   \<and> (noise_rows rows = [] \<longrightarrow> noiseCount (aggregate rows) = 0)
   \<and> (noise_rows rows \<noteq> [] \<longrightarrow>
        noiseCount (aggregate rows) = row_count (hd (noise_rows rows)))
   \<and> (exact_sums rows \<longrightarrow>
        totalRecords (aggregate rows) = sum_list (map row_count rows)
        \<and> validCount rows = sum_list (map row_count (topic_rows rows))
        \<and> (length (noise_rows rows) = 1 \<longrightarrow>
             noiseCount (aggregate rows) = totalRecords (aggregate rows) - validCount rows))"
proof -
  have "noise_rows rows \<noteq> [] \<longrightarrow>
          noiseCount (aggregate rows) = row_count (hd (noise_rows rows))"
    by (cases "noise_rows rows") (simp_all add: noiseCount_aggregate)
  moreover have "noise_rows rows = [] \<longrightarrow> noiseCount (aggregate rows) = 0"
    by (simp add: noiseCount_aggregate)
  ultimately show ?thesis
    using totalRecords_aggregate [of rows] validCount_rows [of rows]
      coverage_aggregate [of rows] noiseCount_single [of rows]
    by blast
qed

theorem C7_coverage_and_noise_witness:
  "exact_sums scenario_rows
   \<and> length (noise_rows scenario_rows) = 1
   \<and> totalRecords (aggregate scenario_rows) = 100
   \<and> validCount scenario_rows = 80
   \<and> coverage (aggregate scenario_rows) = 4 / 5
   \<and> noiseCount (aggregate scenario_rows) = 20
   \<and> noise_rows topics_only_rows = []
   \<and> noiseCount (aggregate topics_only_rows) = 0
   \<and> noise_rows two_noise_rows \<noteq> []
   \<and> noiseCount (aggregate two_noise_rows) = 20"
proof -
  have ex: "exact_sums scenario_rows"
    by (simp add: exact_sums_def scenario_rows_def row_count_def)
  have one: "length (noise_rows scenario_rows) = 1"
    by (simp add: scenario_rows_def noise_rows_def)
  have none: "noise_rows topics_only_rows = []"
    by (simp add: topics_only_rows_def noise_rows_def)
  have two: "noise_rows two_noise_rows = [two_noise_rows ! 1, two_noise_rows ! 2]"
    by (simp add: two_noise_rows_def noise_rows_def)
  have sums: "sum_list (map row_count scenario_rows) = 100"
    "sum_list (map row_count (topic_rows scenario_rows)) = 80"
    by (simp_all add: scenario_rows_def topic_rows_def row_count_def)
  show ?thesis
    using C7_coverage_and_noise [of scenario_rows] C7_coverage_and_noise [of topics_only_rows]
      C7_coverage_and_noise [of two_noise_rows] ex one none two sums
    by (simp add: two_noise_rows_def row_count_def)
qed

text \<open>
  C8 as stated fails: two rows that carry the same cluster id are two topics for the
  code and one distinct id.
\<close>

theorem C8_counterexample:
  "topicCount (aggregate shared_id_rows) \<noteq> card (set (map Cluster shared_id_rows) - {- 1})"
  by (simp add: shared_id_rows_def aggregate_defs)

text \<open>
  C8, amended. \<open>topicCount\<close> is the number of rows that are not noise; it is the
  number of distinct non-noise cluster ids whenever no two such rows share an id; a
  noise row is never counted.
\<close>

theorem C8_topicCount:
  "topicCount (aggregate rows) = length (topic_rows rows)
   \<and> (distinct (map Cluster (topic_rows rows)) \<longrightarrow>
        topicCount (aggregate rows) = card (set (map Cluster rows) - {- 1}))
   \<and> (Cluster r = - 1 \<longrightarrow>
        topicCount (aggregate (r # rows)) = topicCount (aggregate rows))"
proof -
  have "distinct (map Cluster (topic_rows rows)) \<longrightarrow>
          length (topic_rows rows) = card (set (map Cluster rows) - {- 1})"
    using distinct_card [of "map Cluster (topic_rows rows)"] topic_ids [of rows]
    by auto
  moreover have "Cluster r = - 1 \<longrightarrow> topic_rows (r # rows) = topic_rows rows"
    by (simp add: topic_rows_def)
  ultimately show ?thesis
    by (simp add: topicCount_aggregate)
qed

theorem C8_topicCount_witness:
  "distinct (map Cluster (topic_rows scenario_rows))
   \<and> topicCount (aggregate scenario_rows) = 2
   \<and> card (set (map Cluster scenario_rows) - {- 1}) = 2
   \<and> Cluster (scenario_rows ! 2) = - 1
   \<and> topicCount (aggregate (scenario_rows ! 2 # scenario_rows)) = 2"
proof -
  have d: "distinct (map Cluster (topic_rows scenario_rows))"
    "length (topic_rows scenario_rows) = 2"
    by (simp_all add: scenario_rows_def topic_rows_def)
  have n: "Cluster (scenario_rows ! 2) = - 1"
    by (simp add: scenario_rows_def)
  show ?thesis
    using C8_topicCount [of scenario_rows "scenario_rows ! 2"] d n by simp
qed

section \<open>The claim about error texts\<close>

lemma http_error_cases:
  "http_error E res =
     ErrorObj
       (case body res of
          NotJson _ \<Rightarrow> ''Unknown error''
        | Json JNull _ \<Rightarrow> null_property_text E
        | Json (JObj kvs) _ \<Rightarrow>
            (case map_of (rev kvs) ''detail'' of
               None \<Rightarrow> ''HTTP '' @ string_of_nat (status res)
             | Some x \<Rightarrow>
                 if truthy_json E x then to_text E x
                 else ''HTTP '' @ string_of_nat (status res))
        | Json _ _ \<Rightarrow> ''HTTP '' @ string_of_nat (status res))"
  by (simp add: http_error_def error_body_def get_detail_def truthy_json_def
      split: body.splits json.splits option.splits)

lemma json_request_not_ok:
  "\<not> ok res \<Longrightarrow> json_request E (Responded res) = Inl (http_error E res)"
  by (simp add: json_request_def)

text \<open>
  C6 as stated fails, in four ways. A reply with status 500 whose body is not JSON
  surfaces \<open>Unknown error\<close>, not \<open>HTTP 500\<close>. A reply with status 422 whose
  \<open>detail\<close> is a list of objects surfaces \<open>[object Object]\<close>, not the detail. A
  reply with status 500 whose body is \<open>null\<close> surfaces the engine's message about
  reading a property of null, neither a detail nor \<open>HTTP 500\<close>. A failed download
  surfaces \<open>Download failed: HTTP 404\<close>, not the generic message.
\<close>

theorem C6_counterexample:
  "\<not> ok unparseable_reply
   \<and> body unparseable_reply = NotJson ''Unexpected token''
   \<and> preprocessFile v8 (Responded unparseable_reply) = Inl (ErrorObj ''Unknown error'')
   \<and> preprocessFile v8 (Responded unparseable_reply)
       \<noteq> Inl (ErrorObj (''HTTP '' @ string_of_nat (status unparseable_reply)))
   \<and> \<not> ok validation_reply
   \<and> get_detail (error_body (body validation_reply))
       = Value (JArr [JObj [(''msg'', JStr ''field required'')]])
   \<and> preprocessFile v8 (Responded validation_reply) = Inl (ErrorObj ''[object Object]'')
   \<and> \<not> ok null_reply
   \<and> preprocessFile v8 (Responded null_reply) = Inl (ErrorObj (null_property_text v8))
   \<and> null_property_text v8 \<noteq> ''HTTP '' @ string_of_nat (status null_reply)
   \<and> \<not> ok missing_download
   \<and> downloadFile (Responded missing_download) = Inl (ErrorObj ''Download failed: HTTP 404'')"
proof -
  have s: "string_of_nat 500 = ''500''" "string_of_nat 404 = ''404''"
    by code_simp+
  show ?thesis
    by (simp add: s unparseable_reply_def validation_reply_def null_reply_def
        missing_download_def preprocessFile_def json_request_def http_error_def
        error_body_def get_detail_def truthy_json_def downloadFile_def ok_def v8_def)
qed

text \<open>
  C6, amended. For a reply outside the 2xx range, each of the five JSON operations
  surfaces: the body's \<open>detail\<close> verbatim when the body parses to an object whose
  \<open>detail\<close> is a non-empty string; the string conversion of \<open>detail\<close> when it is
  another truthy value; \<open>HTTP <status>\<close> when the body parses to an object whose
  \<open>detail\<close> is absent or falsy, or to a value that is neither an object nor null;
  the engine's message for reading a property of null when the body parses to null;
  and \<open>Unknown error\<close> when the body does not parse. The download operation
  surfaces \<open>Download failed: HTTP <status>\<close>.
\<close>

theorem C6_error_text:
  fixes res :: "('n, 'a) http_response" and dl :: download_response
  shows
  "(\<not> ok res \<longrightarrow>
      (body res = Json (JObj kvs) v \<and> map_of (rev kvs) ''detail'' = Some (JStr d) \<and> d \<noteq> [] \<longrightarrow>
         json_request E (Responded res) = Inl (ErrorObj d))
      \<and> (body res = Json (JObj kvs) v \<and> map_of (rev kvs) ''detail'' = Some x
            \<and> truthy_json E x \<longrightarrow>
           json_request E (Responded res) = Inl (ErrorObj (to_text E x)))
      \<and> (body res = Json (JObj kvs) v \<and> map_of (rev kvs) ''detail'' = Some x
            \<and> \<not> truthy_json E x \<longrightarrow>
           json_request E (Responded res)
             = Inl (ErrorObj (''HTTP '' @ string_of_nat (status res))))
      \<and> (body res = Json (JObj kvs) v \<and> map_of (rev kvs) ''detail'' = None \<longrightarrow>
           json_request E (Responded res)
             = Inl (ErrorObj (''HTTP '' @ string_of_nat (status res))))
      \<and> (body res = Json j v \<and> \<not> is_object j \<and> j \<noteq> JNull \<longrightarrow>
           json_request E (Responded res)
             = Inl (ErrorObj (''HTTP '' @ string_of_nat (status res))))
      \<and> (body res = Json JNull v \<longrightarrow>
           json_request E (Responded res) = Inl (ErrorObj (null_property_text E)))
      \<and> (body res = NotJson m \<longrightarrow>
           json_request E (Responded res) = Inl (ErrorObj ''Unknown error'')))
   \<and> preprocessFile E (Responded pre) = json_request E (Responded pre)
   \<and> clusterData E (Responded cl) = json_request E (Responded cl)
   \<and> evaluateCluster E (Responded ev) = json_request E (Responded ev)
   \<and> extractKeywords E (Responded kw) = json_request E (Responded kw)
   \<and> loadState E (Responded ls) = json_request E (Responded ls)
   \<and> (\<not> ok dl \<longrightarrow>
        downloadFile (Responded dl)
          = Inl (ErrorObj (''Download failed: HTTP '' @ string_of_nat (status dl))))"
proof -
  have "\<not> is_object j \<and> j \<noteq> JNull \<longrightarrow> get_detail j = Undefined"
    by (cases j) (simp_all add: get_detail_def is_object_def)
  then have other: "body res = Json j v \<and> \<not> is_object j \<and> j \<noteq> JNull \<longrightarrow>
      http_error E res = ErrorObj (''HTTP '' @ string_of_nat (status res))"
    by (simp add: http_error_def error_body_def)
  have str: "d \<noteq> [] \<longrightarrow> truthy_json E (JStr d) \<and> to_text E (JStr d) = d"
    by (simp add: truthy_json_def)
  show ?thesis
    using other str
    by (auto simp: json_request_not_ok http_error_cases preprocessFile_def clusterData_def
        evaluateCluster_def extractKeywords_def loadState_def downloadFile_def)
qed

theorem C6_error_text_witness:
  "\<not> ok not_found_reply
   \<and> preprocessFile v8 (Responded not_found_reply) = Inl (ErrorObj ''File not found'')
   \<and> \<not> ok validation_reply
   \<and> preprocessFile v8 (Responded validation_reply) = Inl (ErrorObj ''[object Object]'')
   \<and> \<not> ok (not_found_reply\<lparr>body := Json (JObj [(''detail'', JNum 0)]) pre_ok\<rparr>)
   \<and> json_request v8 (Responded (not_found_reply\<lparr>body := Json (JObj [(''detail'', JNum 0)]) pre_ok\<rparr>))
       = Inl (ErrorObj ''HTTP 404'')
   \<and> json_request v8 (Responded (not_found_reply\<lparr>body := Json (JObj []) pre_ok\<rparr>))
       = Inl (ErrorObj ''HTTP 404'')
   \<and> json_request v8 (Responded (not_found_reply\<lparr>body := Json (JStr ''gone'') pre_ok\<rparr>))
       = Inl (ErrorObj ''HTTP 404'')
   \<and> \<not> ok null_reply
   \<and> json_request v8 (Responded null_reply) = Inl (ErrorObj (null_property_text v8))
   \<and> \<not> ok unparseable_reply
   \<and> json_request v8 (Responded unparseable_reply) = Inl (ErrorObj ''Unknown error'')
   \<and> \<not> ok missing_download
   \<and> downloadFile (Responded missing_download)
       = Inl (ErrorObj ''Download failed: HTTP 404'')"
proof -
  have n: "\<not> ok not_found_reply" "\<not> ok validation_reply" "\<not> ok null_reply"
    "\<not> ok unparseable_reply" "\<not> ok missing_download"
    "\<And>b. \<not> ok (not_found_reply\<lparr>body := b\<rparr>)"
    by (simp_all add: ok_def not_found_reply_def validation_reply_def null_reply_def
        unparseable_reply_def missing_download_def)
  have s: "string_of_nat 404 = ''404''"
    by code_simp
  have t: "truthy_json v8 (JArr [JObj [(''msg'', JStr ''field required'')]])"
    "\<not> truthy_json v8 (JNum 0)" "\<not> is_object (JStr ''gone'' :: int json)"
    by (simp_all add: truthy_json_def v8_def is_object_def)
  have w1: "preprocessFile v8 (Responded not_found_reply) = Inl (ErrorObj ''File not found'')"
    using n(1)
      C6_error_text [where res = not_found_reply and E = v8 and d = "''File not found''"
        and kvs = "[(''detail'', JStr ''File not found'')]" and v = pre_ok
        and pre = not_found_reply]
    by (simp add: not_found_reply_def)
  have w2: "preprocessFile v8 (Responded validation_reply) = Inl (ErrorObj ''[object Object]'')"
    using n(2) t(1)
      C6_error_text [where res = validation_reply and E = v8
        and kvs = "[(''detail'', JArr [JObj [(''msg'', JStr ''field required'')]])]"
        and x = "JArr [JObj [(''msg'', JStr ''field required'')]]" and v = pre_ok
        and pre = validation_reply]
    by (simp add: validation_reply_def)
  have w3: "json_request v8
              (Responded (not_found_reply\<lparr>body := Json (JObj [(''detail'', JNum 0)]) pre_ok\<rparr>))
            = Inl (ErrorObj ''HTTP 404'')"
    using n(6) t(2) s
      C6_error_text [where res = "not_found_reply\<lparr>body := Json (JObj [(''detail'', JNum 0)]) pre_ok\<rparr>"
        and E = v8 and kvs = "[(''detail'', JNum 0)]" and x = "JNum 0" and v = pre_ok]
    by (simp add: not_found_reply_def)
  have w4: "json_request v8 (Responded (not_found_reply\<lparr>body := Json (JObj []) pre_ok\<rparr>))
            = Inl (ErrorObj ''HTTP 404'')"
    using n(6) s
      C6_error_text [where res = "not_found_reply\<lparr>body := Json (JObj []) pre_ok\<rparr>"
        and E = v8 and kvs = "[]" and v = pre_ok]
    by (simp add: not_found_reply_def)
  have w5: "json_request v8 (Responded (not_found_reply\<lparr>body := Json (JStr ''gone'') pre_ok\<rparr>))
            = Inl (ErrorObj ''HTTP 404'')"
    using n(6) t(3) s
      C6_error_text [where res = "not_found_reply\<lparr>body := Json (JStr ''gone'') pre_ok\<rparr>"
        and E = v8 and j = "JStr ''gone''" and v = pre_ok]
    by (simp add: not_found_reply_def)
  have w6: "json_request v8 (Responded null_reply) = Inl (ErrorObj (null_property_text v8))"
    using n(3) C6_error_text [where res = null_reply and E = v8 and v = pre_ok]
    by (simp add: null_reply_def)
  have w7: "json_request v8 (Responded unparseable_reply) = Inl (ErrorObj ''Unknown error'')"
    using n(4) C6_error_text [where res = unparseable_reply and E = v8 and m = "''Unexpected token''"]
    by (simp add: unparseable_reply_def)
  have w8: "downloadFile (Responded missing_download)
              = Inl (ErrorObj ''Download failed: HTTP 404'')"
    using n(5) s C6_error_text [where dl = missing_download and E = v8 and res = null_reply]
    by (simp add: missing_download_def)
  show ?thesis
    using n w1 w2 w3 w4 w5 w6 w7 w8 by simp
qed

section \<open>The concrete runs\<close>

lemmas handler_defs =
  handleStep1_enter_def handleStep1_timer_def handleStep1_settle_def handleStep1_failed_def
  handleStep2_enter_def handleStep2_downloaded_def handleStep2_settle_def handleStep2_failed_def
  handleStep3_enter_def handleStep3_downloaded_def handleStep3_settle_def handleStep3_failed_def
  clickRun1_def clickRun2_def clickRun3_def run_button_disabled_def
  step1Status_def step2Status_def step3Status_def processedFilename_def
  fallbackClusteredFilename_def fallbackKeywordsFilename_def targetFilename_def
  keywordsDownloadName_def truthy_def or_else_def advance1_def advance2_def advance3_def

lemma run_Nil: "run sys [] = sys"
  by (simp add: run_def)

lemma run_Cons: "run sys (e # evs) = run (step sys e) evs"
  by (simp add: run_def)


lemma stage2_inflight_eq:
  "stage2_inflight =
     \<lparr>page = (initial ''key'')
        \<lparr>file := Some survey, preprocessResult := Some pre_ok,
         step1Progress := 100, step1ProgressText := text_processed,
         step2Loading := True, step2Progress := 10,
         step2ProgressText := text_downloading_processed\<rparr>,
      pending1 = None,
      pending2 = Some (AwaitDownload2 ''processed_survey.xlsx'' (clusterCfg (initial ''key''))),
      pending3 = None,
      issued = [PreprocessCall survey ''12366'' True default_column,
                DownloadCall ''processed_survey.xlsx'']\<rparr>"
  by (simp add: stage2_inflight_def run_Cons run_Nil start_def initial_def Let_def handler_defs
      survey_def)

lemma stage2_inflight_page:
  "page stage2_inflight =
     (initial ''key'')
        \<lparr>file := Some survey, preprocessResult := Some pre_ok,
         step1Progress := 100, step1ProgressText := text_processed,
         step2Loading := True, step2Progress := 10,
         step2ProgressText := text_downloading_processed\<rparr>"
  by (simp add: stage2_inflight_eq)

lemma stage2_inflight_pending: "pending1 stage2_inflight = None"
  by (simp add: stage2_inflight_eq)

lemma stage2_overtaken_eq:
  "stage2_overtaken =
     \<lparr>page = (initial ''key'')
        \<lparr>file := Some survey, clusterResult := Some cl_ok,
         realClusteredFilename := Some ''clustered_report.xlsx'',
         step1Loading := True, step1Progress := 15, step1ProgressText := text_uploading,
         step2Progress := 100, step2ProgressText := text_clustered\<rparr>,
      pending1 = Some (AwaitTimer survey (cleanCfg (initial ''key''))),
      pending2 = None,
      pending3 = None,
      issued = [PreprocessCall survey ''12366'' True default_column,
                DownloadCall ''processed_survey.xlsx'',
                ClusterCall (spreadsheet ''cleaned'' ''processed_survey.xlsx'')
                  ''Sanitized_Content'' default_originalColumn 15 5 10 5 True]\<rparr>"
  by (simp add: stage2_overtaken_def stage2_inflight_eq run_Cons run_Nil initial_def Let_def handler_defs
      survey_def cl_ok_def realName_def pop_def is_slash_def)

lemma stage2_overtaken_page:
  "page stage2_overtaken =
     (initial ''key'')
        \<lparr>file := Some survey, clusterResult := Some cl_ok,
         realClusteredFilename := Some ''clustered_report.xlsx'',
         step1Loading := True, step1Progress := 15, step1ProgressText := text_uploading,
         step2Progress := 100, step2ProgressText := text_clustered\<rparr>"
  by (simp add: stage2_overtaken_eq)

lemma all_completed_page:
  "page all_completed =
     (initial ''key'')
        \<lparr>file := Some survey, preprocessResult := Some pre_ok,
         clusterResult := Some cl_ok, keywordsResult := Some kw_ok,
         realClusteredFilename := Some ''clustered_report.xlsx'',
         realKeywordsFilename := Some ''keywords_report.xlsx'',
         step1Progress := 100, step1ProgressText := text_processed,
         step2Progress := 100, step2ProgressText := text_clustered,
         step3Progress := 100, step3ProgressText := text_summarized\<rparr>"
  by (simp add: all_completed_def stage2_inflight_eq run_Cons run_Nil initial_def Let_def
      handler_defs survey_def cl_ok_def kw_ok_def realName_def pop_def is_slash_def)

lemma all_completed_pending:
  "pending1 all_completed = None \<and> pending2 all_completed = None
   \<and> pending3 all_completed = None"
  by (simp add: all_completed_def stage2_inflight_eq run_Cons run_Nil initial_def Let_def
      handler_defs survey_def cl_ok_def kw_ok_def realName_def pop_def is_slash_def)


lemma stage3_failed_eq:
  "stage3_failed =
     \<lparr>page = (initial ''key'')
        \<lparr>file := Some survey, preprocessResult := Some pre_ok,
         clusterResult := Some cl_ok,
         realClusteredFilename := Some ''clustered_report.xlsx'',
         step1Progress := 100, step1ProgressText := text_processed,
         step2Progress := 100, step2ProgressText := text_clustered,
         step3Progress := 15, step3ProgressText := text_downloading_clustered,
         error := Some ''timeout''\<rparr>,
      pending1 = None, pending2 = None, pending3 = None,
      issued = [PreprocessCall survey ''12366'' True default_column,
                DownloadCall ''processed_survey.xlsx'',
                ClusterCall (spreadsheet ''cleaned'' ''processed_survey.xlsx'')
                  ''Sanitized_Content'' default_originalColumn 15 5 10 5 True,
                DownloadCall ''clustered_report.xlsx'']\<rparr>"
  by (simp add: stage3_failed_def stage2_inflight_eq run_Cons run_Nil initial_def Let_def
      handler_defs survey_def cl_ok_def realName_def pop_def is_slash_def message_of_def)

section \<open>Properties of artifact names\<close>

lemma split_path_length: "length (split_path p) = Suc (length (filter is_slash p))"
  by (induction p) (auto split: list.splits)

lemma split_path_not_empty: "split_path p \<noteq> []"
  using split_path_length [of p] by auto

lemma split_path_no_slash: "\<forall>c \<in> set p. \<not> is_slash c \<Longrightarrow> split_path p = [p]"
  by (induction p) simp_all

lemma split_path_last: "last (split_path p) = final_segment p"
proof (induction p)
  case Nil
  show ?case by (simp add: final_segment_def)
next
  case (Cons c cs)
  show ?case
  proof (cases "\<forall>x \<in> set cs. \<not> is_slash x")
    case True
    then have cs: "split_path cs = [cs]" by (rule split_path_no_slash)
    have "takeWhile (\<lambda>c. \<not> is_slash c) (rev cs @ [c])
            = rev cs @ takeWhile (\<lambda>c. \<not> is_slash c) [c]"
      by (rule takeWhile_append2) (use True in auto)
    then show ?thesis
      by (simp add: cs final_segment_def)
  next
    case False
    then obtain x where x: "x \<in> set (rev cs)" "\<not> \<not> is_slash x"
      by auto
    have tw: "takeWhile (\<lambda>c. \<not> is_slash c) (rev cs @ [c])
                = takeWhile (\<lambda>c. \<not> is_slash c) (rev cs)"
      using x by (rule takeWhile_append1)
    from False have "filter is_slash cs \<noteq> []"
      by (simp add: filter_empty_conv)
    then have "length (split_path cs) \<ge> 2"
      using split_path_length [of cs] by (cases "filter is_slash cs") simp_all
    then obtain seg seg' segs where cs: "split_path cs = seg # seg' # segs"
      by (cases "split_path cs"; cases "tl (split_path cs)") auto
    show ?thesis
      using Cons.IH by (simp add: cs final_segment_def tw)
  qed
qed


lemma realName_eq:
  "realName out =
     (case out of
        None \<Rightarrow> None
      | Some p \<Rightarrow> if final_segment p \<noteq> [] then Some (final_segment p) else None)"
proof (cases out)
  case None
  then show ?thesis by (simp add: realName_def truthy_def)
next
  case (Some p)
  have "p = [] \<Longrightarrow> final_segment p = []" by (simp add: final_segment_def)
  then show ?thesis
    using split_path_not_empty [of p]
    by (auto simp: Some realName_def truthy_def pop_def Let_def split_path_last)
qed



lemma step2_settle_name:
  "realClusteredFilename (fst (handleStep2_settle (Inr res) s))
     = (case realName (cl_output_file res) of
          None \<Rightarrow> realClusteredFilename s | Some n \<Rightarrow> Some n)"
  by (simp add: handleStep2_settle_def Let_def split: option.splits)

lemma step2_settle_file: "file (fst (handleStep2_settle outcome s)) = file s"
  by (simp add: handleStep2_settle_def handleStep2_failed_def Let_def
      split: sum.splits option.splits)



lemma or_else_Some: "c \<noteq> [] \<Longrightarrow> or_else (Some c) b = Some c"
  by (simp add: or_else_def truthy_def)



text \<open>
  C3. The name recorded from a stage-2 response whose output identifier has a
  non-empty final segment is that segment (what follows the last forward or back
  slash); the fallback is \<open>clustered_\<close> followed by the input's name; and the name
  stage 3 resolves is the recorded one, not the fallback. The same preference holds
  in every state, for the clustered and for the keywords artifact.
\<close>

theorem C3_canonical_name_preferred:
  assumes "cl_output_file res = Some fullPath"
    and "final_segment fullPath \<noteq> []"
    and "file s = Some f"
  shows
  "last (split_path fullPath) = final_segment fullPath
   \<and> realClusteredFilename (fst (handleStep2_settle (Inr res) s))
       = Some (final_segment fullPath)
   \<and> fallbackClusteredFilename (fst (handleStep2_settle (Inr res) s))
       = Some (''clustered_'' @ file_name f)
   \<and> targetFilename (fst (handleStep2_settle (Inr res) s)) = Some (final_segment fullPath)
   \<and> (realClusteredFilename s0 = Some c \<and> c \<noteq> [] \<longrightarrow> targetFilename s0 = Some c)
   \<and> (realKeywordsFilename s0 = Some c \<and> c \<noteq> [] \<longrightarrow> keywordsDownloadName s0 = Some c)"
proof -
  let ?s' = "fst (handleStep2_settle (Inr res) s)"
  have name: "realClusteredFilename ?s' = Some (final_segment fullPath)"
    using assms(1,2) by (simp add: step2_settle_name realName_eq)
  have "file ?s' = Some f"
    using assms(3) by (simp add: step2_settle_file)
  then have fb: "fallbackClusteredFilename ?s' = Some (''clustered_'' @ file_name f)"
    by (simp add: fallbackClusteredFilename_def)
  have "targetFilename ?s' = Some (final_segment fullPath)"
    using assms(2) by (simp add: targetFilename_def name or_else_Some)
  then show ?thesis
    using name fb
    by (auto simp: split_path_last targetFilename_def keywordsDownloadName_def or_else_Some)
qed

theorem C3_canonical_name_preferred_witness:
  "cl_output_file cl_ok = Some ''out/clustered_report.xlsx''
   \<and> final_segment ''out/clustered_report.xlsx'' = ''clustered_report.xlsx''
   \<and> file (page stage2_inflight) = Some survey
   \<and> file_name survey = ''survey.xlsx''
   \<and> fallbackClusteredFilename (fst (handleStep2_settle (Inr cl_ok) (page stage2_inflight)))
       = Some ''clustered_survey.xlsx''
   \<and> targetFilename (fst (handleStep2_settle (Inr cl_ok) (page stage2_inflight)))
       = Some ''clustered_report.xlsx''"
proof -
  have a: "cl_output_file cl_ok = Some ''out/clustered_report.xlsx''"
    by (simp add: cl_ok_def)
  have b: "final_segment ''out/clustered_report.xlsx'' = ''clustered_report.xlsx''"
    by (simp add: final_segment_def is_slash_def)
  have c: "file (page stage2_inflight) = Some survey"
    by (simp add: stage2_inflight_def run_def start_def initial_def handler_defs Let_def
        survey_def pre_ok_def)
  have d: "final_segment ''out/clustered_report.xlsx'' \<noteq> []"
    by (simp add: b)
  show ?thesis
    using C3_canonical_name_preferred [OF a d c] a b c
    by (simp add: survey_def)
qed







section \<open>The claims about running a stage\<close>

text \<open>
  C2 as stated fails. Stage 1 was run again while stage 2 was in flight and stage 2
  then completed; stage 1 is not done, yet a click on stage 2's run button starts
  stage 2 and issues the download of the processed file.
\<close>

theorem C2_counterexample:
  "preprocessResult (page stage2_overtaken) = None
   \<and> step1Status (page stage2_overtaken) \<noteq> Done
   \<and> fst (snd (clickRun2 (page stage2_overtaken))) = [DownloadCall ''processed_survey.xlsx'']
   \<and> step2Loading (fst (clickRun2 (page stage2_overtaken))) \<noteq> step2Loading (page stage2_overtaken)
   \<and> issued (step stage2_overtaken ClickRun2)
       = issued stage2_overtaken @ [DownloadCall ''processed_survey.xlsx'']"
  by (simp add: stage2_overtaken_page initial_def Let_def handler_defs survey_def)

text \<open>
  C2, amended. A click on a stage's run button is a no-op (no remote call, no change
  of state, nothing left pending) whenever the stage's status is waiting or running,
  and for stage 1 whenever no file is selected. Stage 2 is waiting exactly when it is
  not loading and neither it nor stage 1 has a result; stage 3 likewise with stage 2.
  The handlers themselves return at once, without effect, only when no file is
  selected (stages 1 and 2).
\<close>

theorem C2_disabled_run_is_noop:
  "(file (page sys) = None \<or> step1Status (page sys) = Running \<longrightarrow>
      clickRun1 (page sys) = (page sys, [], None) \<and> step sys ClickRun1 = sys)
   \<and> (step2Status (page sys) = Waiting \<or> step2Status (page sys) = Running \<longrightarrow>
        clickRun2 (page sys) = (page sys, [], None) \<and> step sys ClickRun2 = sys)
   \<and> (step3Status (page sys) = Waiting \<or> step3Status (page sys) = Running \<longrightarrow>
        clickRun3 (page sys) = (page sys, [], None) \<and> step sys ClickRun3 = sys)
   \<and> (step2Status (page sys) = Waiting \<longleftrightarrow>
        \<not> step2Loading (page sys) \<and> clusterResult (page sys) = None
        \<and> preprocessResult (page sys) = None)
   \<and> (step3Status (page sys) = Waiting \<longleftrightarrow>
        \<not> step3Loading (page sys) \<and> keywordsResult (page sys) = None
        \<and> clusterResult (page sys) = None)
   \<and> (file (page sys) = None \<longrightarrow>
        handleStep1_enter (page sys) = (page sys, [], None)
        \<and> handleStep2_enter (page sys) = (page sys, [], None))"
proof -
  have 1: "file (page sys) = None \<or> step1Status (page sys) = Running \<longrightarrow>
      clickRun1 (page sys) = (page sys, [], None) \<and> step sys ClickRun1 = sys"
    by (auto simp: clickRun1_def run_button_disabled_def)
  have 2: "step2Status (page sys) = Waiting \<or> step2Status (page sys) = Running \<longrightarrow>
        clickRun2 (page sys) = (page sys, [], None) \<and> step sys ClickRun2 = sys"
    by (auto simp: clickRun2_def run_button_disabled_def)
  have 3: "step3Status (page sys) = Waiting \<or> step3Status (page sys) = Running \<longrightarrow>
        clickRun3 (page sys) = (page sys, [], None) \<and> step sys ClickRun3 = sys"
    by (auto simp: clickRun3_def run_button_disabled_def)
  have 4: "file (page sys) = None \<longrightarrow>
        handleStep1_enter (page sys) = (page sys, [], None)
        \<and> handleStep2_enter (page sys) = (page sys, [], None)"
    by (simp add: handleStep1_enter_def handleStep2_enter_def processedFilename_def truthy_def)
  show ?thesis
    using 1 2 3 4 by (simp add: step2Status_def step3Status_def)
qed

theorem C2_disabled_run_is_noop_witness:
  "file (page (start ''key'')) = None
   \<and> step2Status (page (start ''key'')) = Waiting
   \<and> step3Status (page (start ''key'')) = Waiting
   \<and> step (start ''key'') ClickRun1 = start ''key''
   \<and> step (start ''key'') ClickRun2 = start ''key''
   \<and> step (start ''key'') ClickRun3 = start ''key''
   \<and> handleStep2_enter (page (start ''key'')) = (page (start ''key''), [], None)
   \<and> step2Status (page stage2_inflight) = Running
   \<and> step stage2_inflight ClickRun2 = stage2_inflight"
proof -
  have a: "file (page (start ''key'')) = None"
    "step2Status (page (start ''key'')) = Waiting"
    "step3Status (page (start ''key'')) = Waiting"
    by (simp_all add: start_def initial_def Let_def step2Status_def step3Status_def)
  have b: "step2Status (page stage2_inflight) = Running"
    by (simp add: stage2_inflight_page initial_def Let_def step2Status_def)
  show ?thesis
    using a b C2_disabled_run_is_noop [of "start ''key''"]
      C2_disabled_run_is_noop [of stage2_inflight]
    by simp
qed

text \<open>
  C4 as stated fails. With stage 1 done and stage 2 in flight, running stage 1 again
  leaves stage 2 running: it is not reset to waiting or ready. When the stage-2 calls
  then complete, stage 2 is done and holds a result and a recorded name while stage 1
  is still running without a result.
\<close>

theorem C4_counterexample:
  "step2Status (page stage2_inflight) = Running
   \<and> step1Status (page (step stage2_inflight ClickRun1)) = Running
   \<and> step2Status (page (step stage2_inflight ClickRun1)) \<noteq> Waiting
   \<and> step2Status (page (step stage2_inflight ClickRun1)) \<noteq> Ready
   \<and> step1Status (page stage2_overtaken) = Running
   \<and> preprocessResult (page stage2_overtaken) = None
   \<and> step2Status (page stage2_overtaken) = Done
   \<and> clusterResult (page stage2_overtaken) = Some cl_ok
   \<and> realClusteredFilename (page stage2_overtaken) = Some ''clustered_report.xlsx''"
  by (simp add: stage2_inflight_page stage2_inflight_pending stage2_overtaken_page initial_def Let_def handler_defs survey_def)

lemma downstream_of_1_step:
  assumes "downstream_of_1_reset sys" and "\<not> is_preprocess_success e"
  shows "downstream_of_1_reset (step sys e)"
proof (cases e)
  case (PreprocessSettles outcome)
  with assms(2) obtain err where "outcome = Inl err"
    by (cases outcome) (simp_all add: is_preprocess_success_def)
  with PreprocessSettles assms(1) show ?thesis
    by (auto simp: downstream_of_1_reset_def stage2_idle_def stage3_idle_def advance1_def
        handleStep1_settle_def handleStep1_failed_def split: option.splits task1.splits)
qed (use assms(1) in \<open>auto simp: downstream_of_1_reset_def stage2_idle_def stage3_idle_def
      handler_defs split: option.splits task1.splits\<close>)

lemma downstream_of_1_run:
  assumes "downstream_of_1_reset sys" and "\<forall>e \<in> set evs. \<not> is_preprocess_success e"
  shows "downstream_of_1_reset (run sys evs)"
  using assms
proof (induction evs arbitrary: sys)
  case Nil
  then show ?case by (simp add: run_Nil)
next
  case (Cons e evs)
  then show ?case
    by (simp add: run_Cons downstream_of_1_step)
qed

lemma downstream_of_1_start:
  assumes "file (page sys) \<noteq> None" and "step1Status (page sys) \<noteq> Running"
    and "stage2_idle sys" and "stage3_idle sys"
  shows "downstream_of_1_reset (step sys ClickRun1)"
  using assms
  by (auto simp: downstream_of_1_reset_def stage2_idle_def stage3_idle_def clickRun1_def
      run_button_disabled_def handleStep1_enter_def advance1_def step1Status_def
      split: if_splits)

lemma downstream_of_2_step:
  assumes "downstream_of_2_reset sys" and "\<not> is_cluster_success e"
  shows "downstream_of_2_reset (step sys e)"
proof (cases e)
  case (ClusterSettles outcome)
  with assms(2) obtain err where "outcome = Inl err"
    by (cases outcome) (simp_all add: is_cluster_success_def)
  with ClusterSettles assms(1) show ?thesis
    by (auto simp: downstream_of_2_reset_def stage3_idle_def advance2_def
        handleStep2_settle_def handleStep2_failed_def split: option.splits task2.splits)
qed (use assms(1) in \<open>auto simp: downstream_of_2_reset_def stage3_idle_def
      handler_defs split: option.splits task1.splits task2.splits sum.splits\<close>)

lemma downstream_of_2_run:
  assumes "downstream_of_2_reset sys" and "\<forall>e \<in> set evs. \<not> is_cluster_success e"
  shows "downstream_of_2_reset (run sys evs)"
  using assms
proof (induction evs arbitrary: sys)
  case Nil
  then show ?case by (simp add: run_Nil)
next
  case (Cons e evs)
  then show ?case
    by (simp add: run_Cons downstream_of_2_step)
qed

lemma downstream_of_2_start:
  assumes "file (page sys) \<noteq> None"
    and "step2Status (page sys) = Ready \<or> step2Status (page sys) = Done"
    and "stage3_idle sys"
  shows "downstream_of_2_reset (step sys ClickRun2)"
  using assms
  by (auto simp: downstream_of_2_reset_def stage3_idle_def clickRun2_def
      run_button_disabled_def handleStep2_enter_def advance2_def processedFilename_def
      truthy_def)

text \<open>
  C4, amended. When stage 1 starts, the results of stages 2 and 3 and both recorded
  artifact names are discarded at once, before the stage-1 call is issued, and each of
  stages 2 and 3 shows waiting unless it is itself in flight, in which case it keeps
  showing running. When stage 2 starts, the same holds for stage 3. When no later
  stage is in flight as the stage starts, the later stages stay waiting, without
  result and without recorded name, through every event that follows, until the stage
  completes with success: in particular after the stage has failed.
\<close>

theorem C4_rerun_discards_downstream:
  "(file s = Some f \<longrightarrow>
      fst (snd (handleStep1_enter s)) = []
      \<and> step1Status (fst (handleStep1_enter s)) = Running
      \<and> clusterResult (fst (handleStep1_enter s)) = None
      \<and> keywordsResult (fst (handleStep1_enter s)) = None
      \<and> realClusteredFilename (fst (handleStep1_enter s)) = None
      \<and> realKeywordsFilename (fst (handleStep1_enter s)) = None
      \<and> step2Status (fst (handleStep1_enter s)) = (if step2Loading s then Running else Waiting)
      \<and> step3Status (fst (handleStep1_enter s)) = (if step3Loading s then Running else Waiting)
      \<and> step2Status (fst (handleStep2_enter s)) = Running
      \<and> keywordsResult (fst (handleStep2_enter s)) = None
      \<and> realKeywordsFilename (fst (handleStep2_enter s)) = None
      \<and> step3Status (fst (handleStep2_enter s)) = (if step3Loading s then Running else Waiting))
   \<and> (file (page sys) \<noteq> None \<and> step1Status (page sys) \<noteq> Running
        \<and> stage2_idle sys \<and> stage3_idle sys
        \<and> (\<forall>e \<in> set evs. \<not> is_preprocess_success e) \<longrightarrow>
        clusterResult (page (run (step sys ClickRun1) evs)) = None
        \<and> keywordsResult (page (run (step sys ClickRun1) evs)) = None
        \<and> realClusteredFilename (page (run (step sys ClickRun1) evs)) = None
        \<and> realKeywordsFilename (page (run (step sys ClickRun1) evs)) = None
        \<and> step2Status (page (run (step sys ClickRun1) evs)) = Waiting
        \<and> step3Status (page (run (step sys ClickRun1) evs)) = Waiting)
   \<and> (file (page sys) \<noteq> None
        \<and> (step2Status (page sys) = Ready \<or> step2Status (page sys) = Done)
        \<and> stage3_idle sys
        \<and> (\<forall>e \<in> set evs. \<not> is_cluster_success e) \<longrightarrow>
        keywordsResult (page (run (step sys ClickRun2) evs)) = None
        \<and> realKeywordsFilename (page (run (step sys ClickRun2) evs)) = None
        \<and> step3Status (page (run (step sys ClickRun2) evs)) = Waiting)"
proof -
  have 1: "file s = Some f \<Longrightarrow>
      handleStep1_enter s =
        (s\<lparr>step1Loading := True, error := None, preprocessResult := None,
           clusterResult := None, keywordsResult := None,
           realClusteredFilename := None, realKeywordsFilename := None,
           step1Progress := 15, step1ProgressText := text_uploading\<rparr>,
         [], Some (AwaitTimer f (cleanCfg s)))"
    by (simp add: handleStep1_enter_def)
  have 2: "file s = Some f \<Longrightarrow>
      handleStep2_enter s =
        (s\<lparr>step2Loading := True, error := None, clusterResult := None,
           keywordsResult := None, realKeywordsFilename := None,
           step2Progress := 10, step2ProgressText := text_downloading_processed\<rparr>,
         [DownloadCall (''processed_'' @ file_name f)],
         Some (AwaitDownload2 (''processed_'' @ file_name f) (clusterCfg s)))"
    by (simp add: handleStep2_enter_def processedFilename_def truthy_def)
  have a: "file s = Some f \<longrightarrow>
      fst (snd (handleStep1_enter s)) = []
      \<and> step1Status (fst (handleStep1_enter s)) = Running
      \<and> clusterResult (fst (handleStep1_enter s)) = None
      \<and> keywordsResult (fst (handleStep1_enter s)) = None
      \<and> realClusteredFilename (fst (handleStep1_enter s)) = None
      \<and> realKeywordsFilename (fst (handleStep1_enter s)) = None
      \<and> step2Status (fst (handleStep1_enter s)) = (if step2Loading s then Running else Waiting)
      \<and> step3Status (fst (handleStep1_enter s)) = (if step3Loading s then Running else Waiting)"
    by (simp add: 1 step1Status_def step2Status_def step3Status_def)
  have b: "file s = Some f \<longrightarrow>
        step2Status (fst (handleStep2_enter s)) = Running
        \<and> keywordsResult (fst (handleStep2_enter s)) = None
        \<and> realKeywordsFilename (fst (handleStep2_enter s)) = None
        \<and> step3Status (fst (handleStep2_enter s)) = (if step3Loading s then Running else Waiting)"
    by (simp add: 2 step2Status_def step3Status_def)
  have c: "file (page sys) \<noteq> None \<and> step1Status (page sys) \<noteq> Running
        \<and> stage2_idle sys \<and> stage3_idle sys
        \<and> (\<forall>e \<in> set evs. \<not> is_preprocess_success e) \<longrightarrow>
        downstream_of_1_reset (run (step sys ClickRun1) evs)"
    using downstream_of_1_run [OF downstream_of_1_start, of sys evs] by blast
  have d: "file (page sys) \<noteq> None
        \<and> (step2Status (page sys) = Ready \<or> step2Status (page sys) = Done)
        \<and> stage3_idle sys
        \<and> (\<forall>e \<in> set evs. \<not> is_cluster_success e) \<longrightarrow>
        downstream_of_2_reset (run (step sys ClickRun2) evs)"
    using downstream_of_2_run [OF downstream_of_2_start, of sys evs] by blast
  have e: "downstream_of_1_reset t \<Longrightarrow>
        clusterResult (page t) = None \<and> keywordsResult (page t) = None
        \<and> realClusteredFilename (page t) = None \<and> realKeywordsFilename (page t) = None
        \<and> step2Status (page t) = Waiting \<and> step3Status (page t) = Waiting" for t
    by (simp add: downstream_of_1_reset_def stage2_idle_def stage3_idle_def step2Status_def
        step3Status_def)
  have g: "downstream_of_2_reset t \<Longrightarrow>
        keywordsResult (page t) = None \<and> realKeywordsFilename (page t) = None
        \<and> step3Status (page t) = Waiting" for t
    by (simp add: downstream_of_2_reset_def stage3_idle_def step3Status_def)
  show ?thesis
    using a b c d e [of "run (step sys ClickRun1) evs"] g [of "run (step sys ClickRun2) evs"]
    by blast
qed

theorem C4_rerun_discards_downstream_witness:
  "file (page all_completed) = Some survey
   \<and> step1Status (page all_completed) = Done
   \<and> step2Status (page all_completed) = Done
   \<and> step3Status (page all_completed) = Done
   \<and> stage2_idle all_completed
   \<and> stage3_idle all_completed
   \<and> realClusteredFilename (page all_completed) = Some ''clustered_report.xlsx''
   \<and> realKeywordsFilename (page all_completed) = Some ''keywords_report.xlsx''
   \<and> page (step all_completed ClickRun1) = fst (handleStep1_enter (page all_completed))
   \<and> issued (step all_completed ClickRun1) = issued all_completed
   \<and> clusterResult (page (step all_completed ClickRun1)) = None
   \<and> keywordsResult (page (step all_completed ClickRun1)) = None
   \<and> realClusteredFilename (page (step all_completed ClickRun1)) = None
   \<and> realKeywordsFilename (page (step all_completed ClickRun1)) = None
   \<and> step2Status (page (step all_completed ClickRun1)) = Waiting
   \<and> step3Status (page (step all_completed ClickRun1)) = Waiting
   \<and> filter is_preprocess_success rerun_fails = []
   \<and> step1Status (page (run (step all_completed ClickRun1) rerun_fails)) = Ready
   \<and> clusterResult (page (run (step all_completed ClickRun1) rerun_fails)) = None
   \<and> realClusteredFilename (page (run (step all_completed ClickRun1) rerun_fails)) = None
   \<and> step2Status (page (run (step all_completed ClickRun1) rerun_fails)) = Waiting
   \<and> step3Status (page (run (step all_completed ClickRun1) rerun_fails)) = Waiting
   \<and> filter is_cluster_success [Download2Settles (Inl (ErrorObj ''HTTP 404'')), ClickRun3] = []
   \<and> keywordsResult
        (page (run (step all_completed ClickRun2)
                 [Download2Settles (Inl (ErrorObj ''HTTP 404'')), ClickRun3])) = None
   \<and> step3Status
        (page (run (step all_completed ClickRun2)
                 [Download2Settles (Inl (ErrorObj ''HTTP 404'')), ClickRun3])) = Waiting"
proof -
  have a: "file (page all_completed) = Some survey"
    "step1Status (page all_completed) = Done"
    "step2Status (page all_completed) = Done"
    "step3Status (page all_completed) = Done"
    "realClusteredFilename (page all_completed) = Some ''clustered_report.xlsx''"
    "realKeywordsFilename (page all_completed) = Some ''keywords_report.xlsx''"
    "stage2_idle all_completed" "stage3_idle all_completed"
    by (simp_all add: all_completed_page all_completed_pending initial_def Let_def
        step1Status_def step2Status_def step3Status_def stage2_idle_def stage3_idle_def)
  have b: "page (step all_completed ClickRun1) = fst (handleStep1_enter (page all_completed))"
    "issued (step all_completed ClickRun1) = issued all_completed"
    using a(1,2)
    by (simp_all add: clickRun1_def run_button_disabled_def handleStep1_enter_def advance1_def)
  have c: "\<forall>e \<in> set rerun_fails. \<not> is_preprocess_success e"
    "\<forall>e \<in> set [Download2Settles (Inl (ErrorObj ''HTTP 404'')), ClickRun3].
         \<not> is_cluster_success e"
    "\<forall>e \<in> set ([] :: event list). \<not> is_preprocess_success e"
    by (simp_all add: rerun_fails_def is_preprocess_success_def is_cluster_success_def)
  have c': "filter is_preprocess_success rerun_fails = []"
    "filter is_cluster_success [Download2Settles (Inl (ErrorObj ''HTTP 404'')), ClickRun3] = []"
    by (simp_all add: rerun_fails_def is_preprocess_success_def is_cluster_success_def)
  have d: "step1Status (page (run (step all_completed ClickRun1) rerun_fails)) = Ready"
    using a(1,2)
    by (simp add: rerun_fails_def run_Cons run_Nil all_completed_page all_completed_pending
        initial_def Let_def handler_defs handleStep1_failed_def survey_def)
  show ?thesis
    using a b c c' d
      C4_rerun_discards_downstream [where s = "page all_completed" and f = survey
        and sys = all_completed and evs = rerun_fails]
      C4_rerun_discards_downstream [where s = "page all_completed" and f = survey
        and sys = all_completed and evs = "[]"]
      C4_rerun_discards_downstream [where s = "page all_completed" and f = survey
        and sys = all_completed
        and evs = "[Download2Settles (Inl (ErrorObj ''HTTP 404'')), ClickRun3]"]
    by (simp add: run_Nil)
qed

text \<open>
  C5 as stated fails. With an empty credential and no resolvable cluster file, stage 3
  sets the error message about the missing cluster file and does not ask for the
  configuration.
\<close>

theorem C5_counterexample:
  "apiKey (llmCfg no_file_no_key) = []
   \<and> handleStep3_enter no_file_no_key = (no_file_no_key\<lparr>error := Some text_cluster_file_missing\<rparr>, [], None)
   \<and> \<not> llmDialogOpen (fst (handleStep3_enter no_file_no_key))
   \<and> error (fst (handleStep3_enter no_file_no_key)) \<noteq> error no_file_no_key"
  by (simp add: no_file_no_key_def initial_def Let_def handleStep3_enter_def targetFilename_def
      fallbackClusteredFilename_def or_else_def truthy_def)

text \<open>
  C5, amended. With an empty credential stage 3 issues no remote call, whatever the
  service would answer, and nothing is left pending. When the cluster file name
  resolves, the only effect is that the credential dialog is opened: the error slot is
  untouched. When it does not resolve, the only effect is the message that the cluster
  file cannot be found. A click on the run button behaves the same or does nothing.
\<close>

theorem C5_empty_credential:
  assumes "apiKey (llmCfg s) = []"
  shows
  "snd (handleStep3 s dl kw) = []
   \<and> snd (snd (handleStep3_enter s)) = None
   \<and> fst (snd (clickRun3 s)) = []
   \<and> snd (snd (clickRun3 s)) = None
   \<and> (truthy (targetFilename s) \<longrightarrow>
        fst (handleStep3 s dl kw) = s\<lparr>llmDialogOpen := True\<rparr>
        \<and> error (fst (handleStep3 s dl kw)) = error s)
   \<and> (\<not> truthy (targetFilename s) \<longrightarrow>
        fst (handleStep3 s dl kw) = s\<lparr>error := Some text_cluster_file_missing\<rparr>)"
  using assms
  by (simp add: handleStep3_def handleStep3_enter_def clickRun3_def)

theorem C5_empty_credential_witness:
  "apiKey (llmCfg (no_file_no_key\<lparr>file := Some survey\<rparr>)) = []
   \<and> truthy (targetFilename (no_file_no_key\<lparr>file := Some survey\<rparr>))
   \<and> handleStep3 (no_file_no_key\<lparr>file := Some survey\<rparr>) (Inr ''clustered'') (Inr kw_ok)
       = (no_file_no_key\<lparr>file := Some survey, llmDialogOpen := True\<rparr>, [])
   \<and> apiKey (llmCfg no_file_no_key) = []
   \<and> \<not> truthy (targetFilename no_file_no_key)
   \<and> handleStep3 no_file_no_key (Inr ''clustered'') (Inr kw_ok)
       = (no_file_no_key\<lparr>error := Some text_cluster_file_missing\<rparr>, [])"
proof -
  have a: "apiKey (llmCfg (no_file_no_key\<lparr>file := Some survey\<rparr>)) = []"
    "apiKey (llmCfg no_file_no_key) = []"
    by (simp_all add: no_file_no_key_def initial_def Let_def)
  have b: "truthy (targetFilename (no_file_no_key\<lparr>file := Some survey\<rparr>))"
    "\<not> truthy (targetFilename no_file_no_key)"
    by (simp_all add: no_file_no_key_def initial_def Let_def targetFilename_def
        fallbackClusteredFilename_def or_else_def truthy_def)
  show ?thesis
    using a b
      C5_empty_credential [OF a(1), of "Inr ''clustered''" "Inr kw_ok"]
      C5_empty_credential [OF a(2), of "Inr ''clustered''" "Inr kw_ok"]
    by (simp add: prod_eq_iff)
qed

section \<open>The claim about errors and retries\<close>

lemma message_of_ErrorObj: "message_of (ErrorObj m) fallback = m"
  by (simp add: message_of_def)

lemma failure_events:
  "pending1 sys = Some AwaitPreprocess \<longrightarrow>
     page (step sys (PreprocessSettles (Inl err)))
       = (page sys)\<lparr>error := Some (message_of err text_preprocess_failed),
                     step1Loading := False\<rparr>"
  "pending2 sys = Some (AwaitDownload2 pf cfg) \<longrightarrow>
     page (step sys (Download2Settles (Inl err)))
       = (page sys)\<lparr>error := Some (message_of err text_cluster_failed),
                     step2Loading := False\<rparr>"
  "pending2 sys = Some AwaitCluster \<longrightarrow>
     page (step sys (ClusterSettles (Inl err)))
       = (page sys)\<lparr>error := Some (message_of err text_cluster_failed),
                     step2Loading := False\<rparr>"
  "pending3 sys = Some (AwaitDownload3 tf lcfg) \<longrightarrow>
     page (step sys (Download3Settles (Inl err)))
       = (page sys)\<lparr>error := Some (message_of err text_llm_failed),
                     step3Loading := False\<rparr>"
  "pending3 sys = Some AwaitKeywords \<longrightarrow>
     page (step sys (KeywordsSettles (Inl err)))
       = (page sys)\<lparr>error := Some (message_of err text_llm_failed),
                     step3Loading := False\<rparr>"
  by (simp_all add: advance1_def advance2_def advance3_def handleStep1_settle_def
      handleStep1_failed_def handleStep2_downloaded_def handleStep2_settle_def
      handleStep2_failed_def handleStep3_downloaded_def handleStep3_settle_def
      handleStep3_failed_def)

lemma start_clears_error:
  "\<not> step1Loading (page sys) \<and> step1Loading (page (step sys ClickRun1)) \<longrightarrow>
     error (page (step sys ClickRun1)) = None"
  "\<not> step2Loading (page sys) \<and> step2Loading (page (step sys ClickRun2)) \<longrightarrow>
     error (page (step sys ClickRun2)) = None"
  "\<not> step3Loading (page sys) \<and> step3Loading (page (step sys ClickRun3)) \<longrightarrow>
     error (page (step sys ClickRun3)) = None"
  by (auto simp: handler_defs split: option.splits if_splits)

lemma error_not_read:
  "fst (snd (clickRun1 (s\<lparr>error := e\<rparr>))) = fst (snd (clickRun1 s))"
  "snd (snd (clickRun1 (s\<lparr>error := e\<rparr>))) = snd (snd (clickRun1 s))"
  "fst (snd (clickRun2 (s\<lparr>error := e\<rparr>))) = fst (snd (clickRun2 s))"
  "snd (snd (clickRun2 (s\<lparr>error := e\<rparr>))) = snd (snd (clickRun2 s))"
  "fst (snd (clickRun3 (s\<lparr>error := e\<rparr>))) = fst (snd (clickRun3 s))"
  "snd (snd (clickRun3 (s\<lparr>error := e\<rparr>))) = snd (snd (clickRun3 s))"
  by (auto simp: handler_defs split: option.splits)

lemma retry_after_failure:
  "file s \<noteq> None \<longrightarrow>
     step1Loading (fst (clickRun1 (handleStep1_failed err s)))
     \<and> snd (snd (clickRun1 (handleStep1_failed err s))) \<noteq> None"
  "file s \<noteq> None \<and> preprocessResult s \<noteq> None \<longrightarrow>
     step2Loading (fst (clickRun2 (handleStep2_failed err s)))
     \<and> snd (snd (clickRun2 (handleStep2_failed err s))) \<noteq> None"
  "clusterResult s \<noteq> None \<and> truthy (targetFilename s) \<and> apiKey (llmCfg s) \<noteq> [] \<longrightarrow>
     step3Loading (fst (clickRun3 (handleStep3_failed err s)))
     \<and> snd (snd (clickRun3 (handleStep3_failed err s))) \<noteq> None"
  by (auto simp: handler_defs handleStep1_failed_def handleStep2_failed_def
      handleStep3_failed_def split: option.splits)

lemma retry_over_events:
  "pending1 sys = Some AwaitPreprocess \<and> file (page sys) \<noteq> None \<longrightarrow>
     step1Loading (page (step (step sys (PreprocessSettles (Inl err))) ClickRun1))
     \<and> pending1 (step (step sys (PreprocessSettles (Inl err))) ClickRun1) \<noteq> None
     \<and> error (page (step (step sys (PreprocessSettles (Inl err))) ClickRun1)) = None"
  "pending2 sys = Some (AwaitDownload2 pf cfg) \<and> file (page sys) \<noteq> None
     \<and> preprocessResult (page sys) \<noteq> None \<longrightarrow>
     step2Loading (page (step (step sys (Download2Settles (Inl err))) ClickRun2))
     \<and> pending2 (step (step sys (Download2Settles (Inl err))) ClickRun2) \<noteq> None
     \<and> error (page (step (step sys (Download2Settles (Inl err))) ClickRun2)) = None"
  "pending2 sys = Some AwaitCluster \<and> file (page sys) \<noteq> None
     \<and> preprocessResult (page sys) \<noteq> None \<longrightarrow>
     step2Loading (page (step (step sys (ClusterSettles (Inl err))) ClickRun2))
     \<and> pending2 (step (step sys (ClusterSettles (Inl err))) ClickRun2) \<noteq> None
     \<and> error (page (step (step sys (ClusterSettles (Inl err))) ClickRun2)) = None"
  "pending3 sys = Some (AwaitDownload3 tf lcfg) \<and> clusterResult (page sys) \<noteq> None
     \<and> truthy (targetFilename (page sys)) \<and> apiKey (llmCfg (page sys)) \<noteq> [] \<longrightarrow>
     step3Loading (page (step (step sys (Download3Settles (Inl err))) ClickRun3))
     \<and> pending3 (step (step sys (Download3Settles (Inl err))) ClickRun3) \<noteq> None
     \<and> error (page (step (step sys (Download3Settles (Inl err))) ClickRun3)) = None"
  "pending3 sys = Some AwaitKeywords \<and> clusterResult (page sys) \<noteq> None
     \<and> truthy (targetFilename (page sys)) \<and> apiKey (llmCfg (page sys)) \<noteq> [] \<longrightarrow>
     step3Loading (page (step (step sys (KeywordsSettles (Inl err))) ClickRun3))
     \<and> pending3 (step (step sys (KeywordsSettles (Inl err))) ClickRun3) \<noteq> None
     \<and> error (page (step (step sys (KeywordsSettles (Inl err))) ClickRun3)) = None"
  by (auto simp: handler_defs handleStep1_failed_def handleStep2_failed_def
      handleStep3_failed_def split: option.splits)

lemma earlier_results_kept:
  "preprocessResult (page (step sys ClickRun2)) = preprocessResult (page sys)"
  "preprocessResult (page (step sys (Download2Settles dl))) = preprocessResult (page sys)"
  "preprocessResult (page (step sys (ClusterSettles cl))) = preprocessResult (page sys)"
  "preprocessResult (page (step sys ClickRun3)) = preprocessResult (page sys)"
  "clusterResult (page (step sys ClickRun3)) = clusterResult (page sys)"
  "realClusteredFilename (page (step sys ClickRun3)) = realClusteredFilename (page sys)"
  "preprocessResult (page (step sys (Download3Settles dk))) = preprocessResult (page sys)"
  "clusterResult (page (step sys (Download3Settles dk))) = clusterResult (page sys)"
  "realClusteredFilename (page (step sys (Download3Settles dk)))
     = realClusteredFilename (page sys)"
  "preprocessResult (page (step sys (KeywordsSettles kw))) = preprocessResult (page sys)"
  "clusterResult (page (step sys (KeywordsSettles kw))) = clusterResult (page sys)"
  "realClusteredFilename (page (step sys (KeywordsSettles kw)))
     = realClusteredFilename (page sys)"
  by (auto simp: handler_defs Let_def
      split: option.splits task2.splits task3.splits sum.splits)

text \<open>
  C9 as stated fails, in three ways. Stage 3 fails, the credential is then emptied, and
  the next click on stage 3 opens the dialog and leaves the message standing. Stage 2
  fails while stage 1 is being run again: stage 2 is then waiting and a click on it
  does nothing. Stages 2 and 3 fail while both are in flight: the message of stage 3 is
  replaced by that of stage 2, so two failed stages show one message.
\<close>

theorem C9_counterexample:
  "error (page stage3_failed) = Some ''timeout''
   \<and> apiKey (llmCfg (page key_emptied)) = []
   \<and> error (page (step key_emptied ClickRun3)) = Some ''timeout''
   \<and> llmDialogOpen (page (step key_emptied ClickRun3))
   \<and> \<not> step3Loading (page (step key_emptied ClickRun3))
   \<and> error (page stage2_failed_in_rerun) = Some ''HTTP 404''
   \<and> file (page stage2_failed_in_rerun) = Some survey
   \<and> step2Status (page stage2_failed_in_rerun) = Waiting
   \<and> step stage2_failed_in_rerun ClickRun2 = stage2_failed_in_rerun
   \<and> step2Loading (page both_in_flight) \<and> step3Loading (page both_in_flight)
   \<and> error (page (step both_in_flight (Download3Settles (Inl (ErrorObj ''timeout'')))))
       = Some ''timeout''
   \<and> error (page (run both_in_flight
                     [Download3Settles (Inl (ErrorObj ''timeout'')),
                      Download2Settles (Inl (ErrorObj ''HTTP 404''))]))
       = Some ''HTTP 404''"
proof -
  have a: "error (page stage3_failed) = Some ''timeout''"
    by (simp add: stage3_failed_eq initial_def Let_def)
  have b: "apiKey (llmCfg (page key_emptied)) = []
           \<and> error (page (step key_emptied ClickRun3)) = Some ''timeout''
           \<and> llmDialogOpen (page (step key_emptied ClickRun3))
           \<and> \<not> step3Loading (page (step key_emptied ClickRun3))"
    by (simp add: key_emptied_def stage3_failed_eq run_Cons run_Nil initial_def Let_def
        handler_defs survey_def)
  have c: "error (page stage2_failed_in_rerun) = Some ''HTTP 404''
           \<and> file (page stage2_failed_in_rerun) = Some survey
           \<and> step2Status (page stage2_failed_in_rerun) = Waiting"
    by (simp add: stage2_failed_in_rerun_def stage2_inflight_eq run_Cons run_Nil
        initial_def Let_def handler_defs survey_def message_of_def)
  then have d: "step stage2_failed_in_rerun ClickRun2 = stage2_failed_in_rerun"
    by (simp add: clickRun2_def run_button_disabled_def)
  have e: "step2Loading (page both_in_flight) \<and> step3Loading (page both_in_flight)
           \<and> error (page (step both_in_flight (Download3Settles (Inl (ErrorObj ''timeout'')))))
               = Some ''timeout''
           \<and> error (page (run both_in_flight
                             [Download3Settles (Inl (ErrorObj ''timeout'')),
                              Download2Settles (Inl (ErrorObj ''HTTP 404''))]))
               = Some ''HTTP 404''"
    by (simp add: both_in_flight_def stage2_inflight_eq run_Cons run_Nil initial_def Let_def
        handler_defs survey_def cl_ok_def realName_def pop_def is_slash_def message_of_def)
  from a b c d e show ?thesis by blast
qed

text \<open>
  C9, amended. A stage that fails, at whichever of its calls, puts exactly its one
  message into the error slot that the three stages share, and changes nothing else
  but its own loading flag. The slot is cleared whenever a stage enters running. The
  slot is read by no run button and no handler, so an error by itself blocks nothing:
  after a failure a click starts the stage again whenever its inputs are still there
  (a file; for stage 2 also the result of stage 1; for stage 3 the result of stage 2, a
  resolvable cluster file name and a non-empty credential), which is stated both of
  the handlers on a page state and of the failure event followed by the click event
  in the system. No event of stage 2 or
  stage 3 changes the results of the stages before it.
\<close>

theorem C9_one_error_and_retry:
  "(pending1 sys = Some AwaitPreprocess \<longrightarrow>
      page (step sys (PreprocessSettles (Inl err)))
        = (page sys)\<lparr>error := Some (message_of err text_preprocess_failed),
                      step1Loading := False\<rparr>)
   \<and> (pending2 sys = Some (AwaitDownload2 pf cfg) \<longrightarrow>
        page (step sys (Download2Settles (Inl err)))
          = (page sys)\<lparr>error := Some (message_of err text_cluster_failed),
                        step2Loading := False\<rparr>)
   \<and> (pending2 sys = Some AwaitCluster \<longrightarrow>
        page (step sys (ClusterSettles (Inl err)))
          = (page sys)\<lparr>error := Some (message_of err text_cluster_failed),
                        step2Loading := False\<rparr>)
   \<and> (pending3 sys = Some (AwaitDownload3 tf lcfg) \<longrightarrow>
        page (step sys (Download3Settles (Inl err)))
          = (page sys)\<lparr>error := Some (message_of err text_llm_failed),
                        step3Loading := False\<rparr>)
   \<and> (pending3 sys = Some AwaitKeywords \<longrightarrow>
        page (step sys (KeywordsSettles (Inl err)))
          = (page sys)\<lparr>error := Some (message_of err text_llm_failed),
                        step3Loading := False\<rparr>)
   \<and> message_of (ErrorObj m) fallback = m
   \<and> (\<not> step1Loading (page sys) \<and> step1Loading (page (step sys ClickRun1)) \<longrightarrow>
        error (page (step sys ClickRun1)) = None)
   \<and> (\<not> step2Loading (page sys) \<and> step2Loading (page (step sys ClickRun2)) \<longrightarrow>
        error (page (step sys ClickRun2)) = None)
   \<and> (\<not> step3Loading (page sys) \<and> step3Loading (page (step sys ClickRun3)) \<longrightarrow>
        error (page (step sys ClickRun3)) = None)
   \<and> fst (snd (clickRun1 (s\<lparr>error := e\<rparr>))) = fst (snd (clickRun1 s))
   \<and> snd (snd (clickRun1 (s\<lparr>error := e\<rparr>))) = snd (snd (clickRun1 s))
   \<and> fst (snd (clickRun2 (s\<lparr>error := e\<rparr>))) = fst (snd (clickRun2 s))
   \<and> snd (snd (clickRun2 (s\<lparr>error := e\<rparr>))) = snd (snd (clickRun2 s))
   \<and> fst (snd (clickRun3 (s\<lparr>error := e\<rparr>))) = fst (snd (clickRun3 s))
   \<and> snd (snd (clickRun3 (s\<lparr>error := e\<rparr>))) = snd (snd (clickRun3 s))
   \<and> (file s \<noteq> None \<longrightarrow>
        step1Loading (fst (clickRun1 (handleStep1_failed err s)))
        \<and> snd (snd (clickRun1 (handleStep1_failed err s))) \<noteq> None)
   \<and> (file s \<noteq> None \<and> preprocessResult s \<noteq> None \<longrightarrow>
        step2Loading (fst (clickRun2 (handleStep2_failed err s)))
        \<and> snd (snd (clickRun2 (handleStep2_failed err s))) \<noteq> None)
   \<and> (clusterResult s \<noteq> None \<and> truthy (targetFilename s) \<and> apiKey (llmCfg s) \<noteq> [] \<longrightarrow>
        step3Loading (fst (clickRun3 (handleStep3_failed err s)))
        \<and> snd (snd (clickRun3 (handleStep3_failed err s))) \<noteq> None)
   \<and> (pending1 sys = Some AwaitPreprocess \<and> file (page sys) \<noteq> None \<longrightarrow>
        step1Loading (page (step (step sys (PreprocessSettles (Inl err))) ClickRun1))
        \<and> pending1 (step (step sys (PreprocessSettles (Inl err))) ClickRun1) \<noteq> None
        \<and> error (page (step (step sys (PreprocessSettles (Inl err))) ClickRun1)) = None)
   \<and> (pending2 sys = Some (AwaitDownload2 pf cfg) \<and> file (page sys) \<noteq> None
        \<and> preprocessResult (page sys) \<noteq> None \<longrightarrow>
        step2Loading (page (step (step sys (Download2Settles (Inl err))) ClickRun2))
        \<and> pending2 (step (step sys (Download2Settles (Inl err))) ClickRun2) \<noteq> None
        \<and> error (page (step (step sys (Download2Settles (Inl err))) ClickRun2)) = None)
   \<and> (pending2 sys = Some AwaitCluster \<and> file (page sys) \<noteq> None
        \<and> preprocessResult (page sys) \<noteq> None \<longrightarrow>
        step2Loading (page (step (step sys (ClusterSettles (Inl err))) ClickRun2))
        \<and> pending2 (step (step sys (ClusterSettles (Inl err))) ClickRun2) \<noteq> None
        \<and> error (page (step (step sys (ClusterSettles (Inl err))) ClickRun2)) = None)
   \<and> (pending3 sys = Some (AwaitDownload3 tf lcfg) \<and> clusterResult (page sys) \<noteq> None
        \<and> truthy (targetFilename (page sys)) \<and> apiKey (llmCfg (page sys)) \<noteq> [] \<longrightarrow>
        step3Loading (page (step (step sys (Download3Settles (Inl err))) ClickRun3))
        \<and> pending3 (step (step sys (Download3Settles (Inl err))) ClickRun3) \<noteq> None
        \<and> error (page (step (step sys (Download3Settles (Inl err))) ClickRun3)) = None)
   \<and> (pending3 sys = Some AwaitKeywords \<and> clusterResult (page sys) \<noteq> None
        \<and> truthy (targetFilename (page sys)) \<and> apiKey (llmCfg (page sys)) \<noteq> [] \<longrightarrow>
        step3Loading (page (step (step sys (KeywordsSettles (Inl err))) ClickRun3))
        \<and> pending3 (step (step sys (KeywordsSettles (Inl err))) ClickRun3) \<noteq> None
        \<and> error (page (step (step sys (KeywordsSettles (Inl err))) ClickRun3)) = None)
   \<and> preprocessResult (page (step sys ClickRun2)) = preprocessResult (page sys)
   \<and> preprocessResult (page (step sys (Download2Settles dl))) = preprocessResult (page sys)
   \<and> preprocessResult (page (step sys (ClusterSettles cl))) = preprocessResult (page sys)
   \<and> preprocessResult (page (step sys ClickRun3)) = preprocessResult (page sys)
   \<and> clusterResult (page (step sys ClickRun3)) = clusterResult (page sys)
   \<and> realClusteredFilename (page (step sys ClickRun3)) = realClusteredFilename (page sys)
   \<and> preprocessResult (page (step sys (Download3Settles dk))) = preprocessResult (page sys)
   \<and> clusterResult (page (step sys (Download3Settles dk))) = clusterResult (page sys)
   \<and> realClusteredFilename (page (step sys (Download3Settles dk)))
       = realClusteredFilename (page sys)
   \<and> preprocessResult (page (step sys (KeywordsSettles kw))) = preprocessResult (page sys)
   \<and> clusterResult (page (step sys (KeywordsSettles kw))) = clusterResult (page sys)
   \<and> realClusteredFilename (page (step sys (KeywordsSettles kw)))
       = realClusteredFilename (page sys)"
  by (intro conjI failure_events message_of_ErrorObj start_clears_error error_not_read
      retry_after_failure retry_over_events earlier_results_kept)

theorem C9_one_error_and_retry_witness:
  "pending2 stage2_inflight = Some (AwaitDownload2 ''processed_survey.xlsx'' (clusterCfg (initial ''key'')))
   \<and> error (page (step stage2_inflight (Download2Settles (Inl (ErrorObj ''HTTP 404'')))))
       = Some ''HTTP 404''
   \<and> preprocessResult (page (step stage2_inflight (Download2Settles (Inl (ErrorObj ''HTTP 404'')))))
       = Some pre_ok
   \<and> file (page stage2_inflight) \<noteq> None
   \<and> preprocessResult (page stage2_inflight) \<noteq> None
   \<and> step2Loading
        (page (step (step stage2_inflight (Download2Settles (Inl (ErrorObj ''HTTP 404''))))
                 ClickRun2))
   \<and> error
        (page (step (step stage2_inflight (Download2Settles (Inl (ErrorObj ''HTTP 404''))))
                 ClickRun2)) = None
   \<and> step2Loading (fst (clickRun2 (handleStep2_failed (ErrorObj ''HTTP 404'') (page stage2_inflight))))
   \<and> step1Loading (fst (clickRun1 (handleStep1_failed (ErrorObj ''HTTP 500'') (page stage2_inflight))))
   \<and> \<not> step1Loading (page all_completed)
   \<and> step1Loading (page (step all_completed ClickRun1))
   \<and> error (page (step all_completed ClickRun1)) = None
   \<and> \<not> step2Loading (page all_completed)
   \<and> step2Loading (page (step all_completed ClickRun2))
   \<and> error (page (step all_completed ClickRun2)) = None
   \<and> \<not> step3Loading (page stage3_failed)
   \<and> step3Loading (page (step stage3_failed ClickRun3))
   \<and> error (page stage3_failed) = Some ''timeout''
   \<and> error (page (step stage3_failed ClickRun3)) = None
   \<and> clusterResult (page all_completed) \<noteq> None
   \<and> truthy (targetFilename (page all_completed))
   \<and> apiKey (llmCfg (page all_completed)) \<noteq> []
   \<and> step3Loading (fst (clickRun3 (handleStep3_failed (ErrorObj ''timeout'') (page all_completed))))"
proof -
  have a: "pending2 stage2_inflight
             = Some (AwaitDownload2 ''processed_survey.xlsx'' (clusterCfg (initial ''key'')))"
    "file (page stage2_inflight) \<noteq> None"
    "preprocessResult (page stage2_inflight) = Some pre_ok"
    by (simp_all add: stage2_inflight_eq initial_def Let_def)
  have b: "\<not> step1Loading (page all_completed)" "\<not> step2Loading (page all_completed)"
    "clusterResult (page all_completed) \<noteq> None"
    "truthy (targetFilename (page all_completed))"
    "apiKey (llmCfg (page all_completed)) \<noteq> []"
    "step1Loading (page (step all_completed ClickRun1))"
    "step2Loading (page (step all_completed ClickRun2))"
    by (simp_all add: all_completed_page initial_def Let_def handler_defs survey_def)
  have c: "\<not> step3Loading (page stage3_failed)"
    "step3Loading (page (step stage3_failed ClickRun3))"
    "error (page stage3_failed) = Some ''timeout''"
    by (simp_all add: stage3_failed_eq initial_def Let_def handler_defs survey_def)
  have d0: "pending2 stage2_inflight
        = Some (AwaitDownload2 ''processed_survey.xlsx'' (clusterCfg (initial ''key'')))
      \<and> file (page stage2_inflight) \<noteq> None
      \<and> preprocessResult (page stage2_inflight) \<noteq> None \<longrightarrow>
      step2Loading
        (page (step (step stage2_inflight (Download2Settles (Inl (ErrorObj ''HTTP 404''))))
                 ClickRun2))
      \<and> pending2 (step (step stage2_inflight (Download2Settles (Inl (ErrorObj ''HTTP 404''))))
                 ClickRun2) \<noteq> None
      \<and> error
        (page (step (step stage2_inflight (Download2Settles (Inl (ErrorObj ''HTTP 404''))))
                 ClickRun2)) = None"
    using C9_one_error_and_retry
        [where sys = stage2_inflight and err = "ErrorObj ''HTTP 404''"
           and pf = "''processed_survey.xlsx''" and cfg = "clusterCfg (initial ''key'')"
           and tf = "''t''" and lcfg = "llmCfg (initial ''key'')" and m = "''HTTP 404''"
           and fallback = "''f''" and e = None and s = "page stage2_inflight"
           and dl = "Inl (ErrorObj ''HTTP 404'')" and cl = "Inl (ErrorObj ''HTTP 404'')"
           and dk = "Inl (ErrorObj ''HTTP 404'')" and kw = "Inl (ErrorObj ''HTTP 404'')"]
    by (elim conjE) assumption
  have d: "step2Loading
        (page (step (step stage2_inflight (Download2Settles (Inl (ErrorObj ''HTTP 404''))))
                 ClickRun2))"
    "error
        (page (step (step stage2_inflight (Download2Settles (Inl (ErrorObj ''HTTP 404''))))
                 ClickRun2)) = None"
    using a d0 by simp_all
  show ?thesis
    using a b c d
      C9_one_error_and_retry
        [where sys = stage2_inflight and err = "ErrorObj ''HTTP 404''"
           and pf = "''processed_survey.xlsx''" and cfg = "clusterCfg (initial ''key'')"
           and m = "''HTTP 404''" and s = "page stage2_inflight"
           and dl = "Inl (ErrorObj ''HTTP 404'')"]
      C9_one_error_and_retry
        [where s = "page stage2_inflight" and err = "ErrorObj ''HTTP 500''"]
      C9_one_error_and_retry
        [where sys = all_completed and s = "page all_completed"
           and err = "ErrorObj ''timeout''"]
      C9_one_error_and_retry [where sys = stage3_failed]
    by (simp add: message_of_def)
qed

end
